theory Spec2Isabelle
  imports Main
begin

section \<open>Package cert of containerlab: root CA bootstrap, leaf issuance, certificate store\<close>

text \<open>
  A shallow embedding of \<^verbatim>\<open>src/cert/cert.go\<close>. The Go functions run against the
  file system, write log lines and call the cfssl library, Go's template engine and its
  JSON decoder. In the model
  \<^item> the file system, the log and the randomness consumed by key generation are an explicit
    \<open>world\<close> that every function takes and returns;
  \<^item> the library calls (template parsing and rendering, JSON decoding, cfssl's key
    generation, self-signing and CA signing) are the fields of a record \<open>deps\<close> passed
    to the functions, so every theorem holds for whatever these libraries compute;
  \<^item> a Go result \<^verbatim>\<open>(*Certificates, error)\<close> is a pair of options, \<open>None\<close> being
    \<^verbatim>\<open>nil\<close>, since the source can return \<^verbatim>\<open>nil, nil\<close>.
\<close>

subsection \<open>Data\<close>

text \<open>\<^verbatim>\<open>type Certificates struct\<close>; a \<^verbatim>\<open>[]byte\<close> is a \<open>string\<close> (a list of bytes).\<close>

record Certificates =
  Key :: string
  Csr :: string
  Cert :: string

text \<open>\<^verbatim>\<open>type CertInput struct\<close>.\<close>

record CertInput =
  Hosts :: "string list"
  CommonName :: string
  Country :: string
  Locality :: string
  Organization :: string
  OrganizationUnit :: string
  Expiry :: string
  Name :: string
  LongName :: string
  Fqdn :: string
  Prefix :: string

text \<open>
  \<^verbatim>\<open>type CaRootInput struct\<close>. A record field is a constant of the theory, so the fields
  that \<open>CertInput\<close> has too carry the prefix \<open>Ca\<close> here.
\<close>

record CaRootInput =
  CaCommonName :: string
  CaCountry :: string
  CaLocality :: string
  CaOrganization :: string
  CaOrganizationUnit :: string
  CaExpiry :: string
  CaPrefix :: string
  Names :: "string \<rightharpoonup> string"
  NamePrefix :: string

text \<open>
  \<^verbatim>\<open>types.NodeConfig\<close>, reduced to the two fields package cert reads: the kind of the
  node (\<^verbatim>\<open>n.Config().Kind\<close>) and its short name.
\<close>

record NodeConfig =
  ShortName :: string
  Kind :: string

text \<open>
  cfssl's \<^verbatim>\<open>csr.KeyRequest\<close>, \<^verbatim>\<open>csr.CertificateRequest\<close> and \<^verbatim>\<open>signer.SignRequest\<close>,
  with the fields the source and its two request templates touch.
\<close>

record KeyRequest =
  key_algo :: string
  key_size :: int

record CertificateRequest =
  req_CN :: string
  req_Hosts :: "string list"
  req_KeyRequest :: "KeyRequest option"

record SignRequest =
  sign_Hosts :: "string list"
  sign_Request :: string

text \<open>What a template is executed on: Go passes the input struct as \<^verbatim>\<open>interface{}\<close>.\<close>

datatype tplData = RootData CaRootInput | CertData CertInput

subsection \<open>Errors\<close>

text \<open>
  A Go \<^verbatim>\<open>error\<close> is either an \<^verbatim>\<open>*os.PathError\<close> (operation, path, errno) or a plain message
  (what \<^verbatim>\<open>fmt.Errorf\<close> and the libraries build). \<open>errmsg\<close> is its \<^verbatim>\<open>Error()\<close> text and
  \<open>IsNotExist\<close> is \<^verbatim>\<open>os.IsNotExist\<close>.
\<close>

datatype errno = ENOENT | EISDIR

datatype error = PathError string string errno | ErrorString string

fun errno_text :: "errno \<Rightarrow> string" where
  "errno_text ENOENT = ''no such file or directory''"
| "errno_text EISDIR = ''is a directory''"

fun errmsg :: "error \<Rightarrow> string" where
  "errmsg (PathError oper path e) = oper @ '' '' @ path @ '': '' @ errno_text e"
| "errmsg (ErrorString m) = m"

fun IsNotExist :: "error \<Rightarrow> bool" where
  "IsNotExist (PathError oper path e) = (e = ENOENT)"
| "IsNotExist (ErrorString m) = False"

text \<open>\<^verbatim>\<open>fmt.Errorf(prefix + "%v", err)\<close>: the cause is flattened into the message.\<close>

definition Errorf :: "string \<Rightarrow> error \<Rightarrow> error" where
  "Errorf prefix err = ErrorString (prefix @ errmsg err)"

subsection \<open>The world: files, log and randomness\<close>

datatype fsnode = Dir | File string

datatype level = Debug | Info | Warning

datatype event = Stat string | Log level string

record world =
  files :: "string \<rightharpoonup> fsnode"
  trace :: "event list"
  entropy :: nat

definition logmsg :: "level \<Rightarrow> string \<Rightarrow> world \<Rightarrow> world" where
  "logmsg l m w = w\<lparr>trace := trace w @ [Log l m]\<rparr>"

text \<open>
  \<^verbatim>\<open>os.Stat\<close>: an error when nothing is at the path, else the node found there. The call
  is recorded in the trace.
\<close>

definition IsDir :: "fsnode \<Rightarrow> bool" where
  "IsDir n = (n = Dir)"

definition os_Stat :: "string \<Rightarrow> world \<Rightarrow> (error + fsnode) \<times> world" where
  "os_Stat path w =
     ((case files w path of
         None \<Rightarrow> Inl (PathError ''stat'' path ENOENT)
       | Some n \<Rightarrow> Inr n),
      w\<lparr>trace := trace w @ [Stat path]\<rparr>)"

subsection \<open>Paths: \<^verbatim>\<open>filepath.Join\<close> on a Unix system\<close>

text \<open>
  \<^verbatim>\<open>filepath.Join\<close> drops leading empty elements, joins the rest with a slash and cleans the
  result. \<^verbatim>\<open>filepath.Clean\<close> removes empty and \<^verbatim>\<open>.\<close> elements, resolves an inner \<^verbatim>\<open>..\<close>
  against the element before it, drops a \<^verbatim>\<open>..\<close> at the root, and returns \<^verbatim>\<open>.\<close> for
  an empty result. \<open>clean_step\<close> keeps the elements seen so far as a stack, the last one
  first.
\<close>

fun split_sep :: "string \<Rightarrow> string list" where
  "split_sep [] = [[]]"
| "split_sep (c # cs) =
     (if c = CHR ''/'' then [] # split_sep cs
      else (case split_sep cs of [] \<Rightarrow> [[c]] | x # xs \<Rightarrow> (c # x) # xs))"

fun join_sep :: "string list \<Rightarrow> string" where
  "join_sep [] = []"
| "join_sep [x] = x"
| "join_sep (x # y # ys) = x @ ''/'' @ join_sep (y # ys)"

definition clean_step :: "bool \<Rightarrow> string list \<Rightarrow> string \<Rightarrow> string list" where
  "clean_step rooted st c =
     (if c = [] \<or> c = ''.'' then st
      else if c = ''..'' then
        (case st of
           [] \<Rightarrow> if rooted then [] else [''..'']
         | e # rest \<Rightarrow> if e = ''..'' then ''..'' # st else rest)
      else c # st)"

definition Clean :: "string \<Rightarrow> string" where
  "Clean path =
     (if path = [] then ''.''
      else
        (let rooted = (hd path = CHR ''/'');
             st = foldl (clean_step rooted) [] (split_sep path);
             body = join_sep (rev st)
         in if rooted then CHR ''/'' # body
            else if body = [] then ''.'' else body))"

definition Join :: "string \<Rightarrow> string \<Rightarrow> string" where
  "Join a b =
     (if a \<noteq> [] then Clean (a @ ''/'' @ b)
      else if b \<noteq> [] then Clean b
      else [])"

subsection \<open>The helpers of package utils\<close>

text \<open>
  Modelled from the spec: \<^verbatim>\<open>utils.CreateDirectory\<close>, whose source is not among the files.
  The spec's Certificate Store creates the directory if it is absent and does nothing
  otherwise (create-if-missing, not create-or-fail); it reports nothing to its caller.
\<close>

definition CreateDirectory :: "string \<Rightarrow> nat \<Rightarrow> world \<Rightarrow> world" where
  "CreateDirectory path perm w =
     (case files w path of
        None \<Rightarrow> w\<lparr>files := (files w)(path \<mapsto> Dir)\<rparr>
      | Some n \<Rightarrow> w)"

text \<open>
  Modelled from the spec: \<^verbatim>\<open>utils.CreateFile\<close>, whose source is not among the files. The
  spec's store writes are unconditional overwrites of the file with the given content.
\<close>

definition CreateFile :: "string \<Rightarrow> string \<Rightarrow> world \<Rightarrow> world" where
  "CreateFile file content w = w\<lparr>files := (files w)(file \<mapsto> File content)\<rparr>"

text \<open>
  Modelled from the spec: \<^verbatim>\<open>utils.ReadFileContent\<close>, whose source is not among the files.
  The spec's retriever is a raw byte-level read that fails with a not-found condition
  when the file is absent; reading a directory is an I/O error of another kind.
\<close>

definition ReadFileContent :: "string \<Rightarrow> world \<Rightarrow> error + string" where
  "ReadFileContent file w =
     (case files w file of
        None \<Rightarrow> Inl (PathError ''open'' file ENOENT)
      | Some Dir \<Rightarrow> Inl (PathError ''read'' file EISDIR)
      | Some (File content) \<Rightarrow> Inr content)"

subsection \<open>The libraries\<close>

text \<open>
  The calls into \<^verbatim>\<open>text/template\<close>, \<^verbatim>\<open>encoding/json\<close> and cfssl. Key generation and
  signing draw randomness: they read the world's \<open>entropy\<close>, and the caller advances it
  after each call. \<open>NewSigner\<close> reads the CA's certificate and key from the files.
\<close>

record ('tpl, 'signer) deps =
  tplParse :: "string \<Rightarrow> string \<Rightarrow> error + 'tpl"
  tplExecute :: "'tpl \<Rightarrow> tplData \<Rightarrow> error + string"
  jsonUnmarshal :: "string \<Rightarrow> CertificateRequest \<Rightarrow> error + CertificateRequest"
  NewKeyRequest :: KeyRequest
  initcaNew :: "CertificateRequest \<Rightarrow> nat \<Rightarrow> error + (string \<times> string \<times> string)"
  ProcessRequest :: "CertificateRequest \<Rightarrow> nat \<Rightarrow> error + (string \<times> string)"
  NewSigner :: "(string \<rightharpoonup> fsnode) \<Rightarrow> string \<Rightarrow> string \<Rightarrow> error + 'signer"
  Sign :: "'signer \<Rightarrow> SignRequest \<Rightarrow> nat \<Rightarrow> error + string"
  CSRNoHostMessage :: string

subsection \<open>The functions of \<^verbatim>\<open>cert.go\<close>\<close>

text \<open>\<^verbatim>\<open>var rootCACSRTempl\<close>, byte for byte.\<close>

definition rootCACSRTempl :: string where
  \<open>rootCACSRTempl =
     ''{\<newline>'' @
     ''    "CN": "{{.Prefix}} Root CA",\<newline>'' @
     ''    "key": {\<newline>'' @
     ''       "algo": "rsa",\<newline>'' @
     ''       "size": 2048\<newline>'' @
     ''    },\<newline>'' @
     ''    "names": [{\<newline>'' @
     ''       "C": "BE",\<newline>'' @
     ''       "L": "Antwerp",\<newline>'' @
     ''       "O": "Nokia",\<newline>'' @
     ''       "OU": "Container lab"\<newline>'' @
     ''    }],\<newline>'' @
     ''    "ca": {\<newline>'' @
     ''       "expiry": "262800h"\<newline>'' @
     ''    }\<newline>'' @
     ''}\<newline>''\<close>

text \<open>\<^verbatim>\<open>func writeCertFiles\<close>.\<close>

definition writeCertFiles :: "Certificates \<Rightarrow> string \<Rightarrow> world \<Rightarrow> world" where
  "writeCertFiles certs filesPrefix w =
     CreateFile (filesPrefix @ ''.csr'') (Csr certs)
       (CreateFile (filesPrefix @ ''-key.pem'') (Key certs)
         (CreateFile (filesPrefix @ ''.pem'') (Cert certs) w))"

text \<open>The zero value of \<^verbatim>\<open>csr.CertificateRequest\<close> with the default key request set.\<close>

definition newRequest :: "('tpl, 'signer) deps \<Rightarrow> CertificateRequest" where
  "newRequest D = \<lparr>req_CN = [], req_Hosts = [], req_KeyRequest = Some (NewKeyRequest D)\<rparr>"

text \<open>\<^verbatim>\<open>func GenerateRootCa\<close>. The mode \<^verbatim>\<open>0755\<close> is 493.\<close>

definition GenerateRootCa ::
  "('tpl, 'signer) deps \<Rightarrow> string \<Rightarrow> 'tpl \<Rightarrow> CaRootInput \<Rightarrow> world
     \<Rightarrow> (Certificates option \<times> error option) \<times> world" where
  "GenerateRootCa D labCARoot csrRootJsonTpl input w0 =
     (let w1 = logmsg Info ''Creating root CA'' w0;
          w2 = CreateDirectory labCARoot 493 w1
      in case tplExecute D csrRootJsonTpl (RootData input) of
           Inl err \<Rightarrow> ((None, Some err), w2)
         | Inr csrBuff \<Rightarrow>
             (case jsonUnmarshal D csrBuff (newRequest D) of
                Inl err \<Rightarrow> ((None, Some err), w2)
              | Inr req \<Rightarrow>
                  (let r = initcaNew D req (entropy w2);
                       w3 = w2\<lparr>entropy := Suc (entropy w2)\<rparr>
                   in case r of
                        Inl err \<Rightarrow> ((None, Some err), w3)
                      | Inr (cert, csrPEM, key) \<Rightarrow>
                          (let certs = \<lparr>Key = key, Csr = csrPEM, Cert = cert\<rparr>;
                               w4 = writeCertFiles certs (Join labCARoot (NamePrefix input)) w3
                           in ((Some certs, None), w4)))))"

text \<open>
  \<^verbatim>\<open>func GenerateCert\<close>. \<open>signReq\<close> is built from the CSR alone, so its host list is
  empty, as in the source.
\<close>

definition GenerateCert ::
  "('tpl, 'signer) deps \<Rightarrow> string \<Rightarrow> string \<Rightarrow> 'tpl \<Rightarrow> CertInput \<Rightarrow> string \<Rightarrow> world
     \<Rightarrow> (Certificates option \<times> error option) \<times> world" where
  "GenerateCert D ca caKey csrJSONTpl input targetPath w0 =
     (let w1 = CreateDirectory targetPath 493 w0
      in case tplExecute D csrJSONTpl (CertData input) of
           Inl err \<Rightarrow> ((None, Some err), w1)
         | Inr csrBuff \<Rightarrow>
             (case jsonUnmarshal D csrBuff (newRequest D) of
                Inl err \<Rightarrow> ((None, Some err), w1)
              | Inr req \<Rightarrow>
                  (let r = ProcessRequest D req (entropy w1);
                       w2 = w1\<lparr>entropy := Suc (entropy w1)\<rparr>
                   in case r of
                        Inl err \<Rightarrow> ((None, Some err), w2)
                      | Inr (csrBytes, key) \<Rightarrow>
                          (case NewSigner D (files w2) ca caKey of
                             Inl err \<Rightarrow> ((None, Some err), w2)
                           | Inr s \<Rightarrow>
                               (let signReq = \<lparr>sign_Hosts = [], sign_Request = csrBytes\<rparr>;
                                    r' = Sign D s signReq (entropy w2);
                                    w3 = w2\<lparr>entropy := Suc (entropy w2)\<rparr>
                                in case r' of
                                     Inl err \<Rightarrow> ((None, Some err), w3)
                                   | Inr cert \<Rightarrow>
                                       (let w4 =
                                              (if length (sign_Hosts signReq) = 0
                                                  \<and> length (req_Hosts req) = 0
                                               then logmsg Warning (CSRNoHostMessage D) w3
                                               else w3);
                                            certs = \<lparr>Key = key, Csr = csrBytes, Cert = cert\<rparr>;
                                            w5 = writeCertFiles certs
                                                   (Join targetPath (Name input)) w4
                                        in ((Some certs, None), w5)))))))"

text \<open>
  \<^verbatim>\<open>func RetrieveNodeCertData\<close>. The guard \<^verbatim>\<open>err != nil || !stat.IsDir()\<close> returns
  \<^verbatim>\<open>nil, err\<close> in both cases; in the second one \<^verbatim>\<open>err\<close> is \<^verbatim>\<open>nil\<close>.
\<close>

definition RetrieveNodeCertData ::
  "NodeConfig \<Rightarrow> string \<Rightarrow> world \<Rightarrow> (Certificates option \<times> error option) \<times> world" where
  "RetrieveNodeCertData n labCADir w0 =
     (let nodeCertFilesDir = Join labCADir (ShortName n);
          nodeCertFile = Join nodeCertFilesDir (ShortName n @ ''.pem'');
          nodeKeyFile = Join nodeCertFilesDir (ShortName n @ ''-key.pem'');
          certs = \<lparr>Key = [], Csr = [], Cert = []\<rparr>;
          (r, w1) = os_Stat nodeCertFilesDir w0
      in case r of
           Inl err \<Rightarrow> ((None, Some err), w1)
         | Inr stat \<Rightarrow>
             if \<not> IsDir stat then ((None, None), w1)
             else
               (case ReadFileContent nodeCertFile w1 of
                  Inl err \<Rightarrow> ((None, Some err), w1)
                | Inr c \<Rightarrow>
                    (case ReadFileContent nodeKeyFile w1 of
                       Inl err \<Rightarrow> ((None, Some err), w1)
                     | Inr k \<Rightarrow> ((Some (certs\<lparr>Cert := c, Key := k\<rparr>), None), w1))))"

text \<open>
  The loop at the head of \<^verbatim>\<open>CreateRootCA\<close>: the node map in the order the runtime
  iterates it, left at the first node of kind \<^verbatim>\<open>srl\<close>.
\<close>

fun rootCANeeded :: "(string \<times> NodeConfig) list \<Rightarrow> bool" where
  "rootCANeeded [] = False"
| "rootCANeeded ((k, n) # ns) = (if Kind n = ''srl'' then True else rootCANeeded ns)"

text \<open>
  \<^verbatim>\<open>func CreateRootCA\<close>; \<open>None\<close> is the \<^verbatim>\<open>nil\<close> error. The three debug lines read the
  fields of \<^verbatim>\<open>rootCerts\<close>; were it \<^verbatim>\<open>nil\<close> with a \<^verbatim>\<open>nil\<close> error, Go would panic there,
  which the model reports as the error \<open>nilDereference\<close>. \<open>GenerateRootCa\<close> never returns
  that pair (lemma \<open>GenerateRootCa_shape\<close>).
\<close>

definition nilDereference :: error where
  "nilDereference =
     ErrorString ''panic: runtime error: invalid memory address or nil pointer dereference''"

definition CreateRootCA ::
  "('tpl, 'signer) deps \<Rightarrow> string \<Rightarrow> string \<Rightarrow> (string \<times> NodeConfig) list \<Rightarrow> world
     \<Rightarrow> error option \<times> world" where
  "CreateRootCA D configName labCARoot ns w0 =
     (if \<not> rootCANeeded ns then (None, w0)
      else
        (let rootCaCertPath = Join labCARoot ''root-ca.pem'';
             rootCaKeyPath = Join labCARoot ''root-ca-key.pem'';
             (r1, w1) = os_Stat rootCaCertPath w0;
             rootCaCertExists = (case r1 of Inl err \<Rightarrow> False | Inr st \<Rightarrow> True);
             (r2, w2) = os_Stat rootCaKeyPath w1;
             rootCaKeyExists = (case r2 of Inl err \<Rightarrow> False | Inr st \<Rightarrow> True)
         in if rootCaCertExists \<and> rootCaKeyExists then (None, w2)
            else
              (case tplParse D ''ca-csr'' rootCACSRTempl of
                 Inl err \<Rightarrow> (Some (Errorf ''failed to parse Root CA CSR Template: '' err), w2)
               | Inr tpl \<Rightarrow>
                   (case GenerateRootCa D labCARoot tpl
                           \<lparr>CaCommonName = [], CaCountry = [], CaLocality = [],
                            CaOrganization = [], CaOrganizationUnit = [], CaExpiry = [],
                            CaPrefix = configName, Names = Map.empty,
                            NamePrefix = ''root-ca''\<rparr> w2 of
                      ((rootCerts, Some err), w3) \<Rightarrow>
                        (Some (Errorf ''failed to generate rootCa: '' err), w3)
                    | ((None, None), w3) \<Rightarrow> (Some nilDereference, w3)
                    | ((Some rootCerts, None), w3) \<Rightarrow>
                        (let w4 = logmsg Debug (''root CSR: '' @ Csr rootCerts) w3;
                             w5 = logmsg Debug (''root Cert: '' @ Cert rootCerts) w4;
                             w6 = logmsg Debug (''root Key: '' @ Key rootCerts) w5
                         in (None, w6))))))"

subsection \<open>Auxiliary notions for the statements\<close>

text \<open>
  A plain file name: not empty, without a separator, and neither \<^verbatim>\<open>.\<close> nor \<^verbatim>\<open>..\<close>.
  \<open>filepath.Join\<close> appends such a name to a directory unchanged.
\<close>

definition plainName :: "string \<Rightarrow> bool" where
  "plainName n = (n \<noteq> [] \<and> CHR ''/'' \<notin> set n \<and> n \<noteq> ''.'' \<and> n \<noteq> ''..'')"

text \<open>What \<open>Join a\<close> puts in front of a plain name: the cleaned \<open>a\<close> and a separator.\<close>

definition dirPrefix :: "string \<Rightarrow> string" where
  "dirPrefix a =
     (if a = [] then []
      else
        (let rooted = (hd a = CHR ''/'');
             st = foldl (clean_step rooted) [] (split_sep a)
         in (if rooted then ''/'' else [])
            @ (if st = [] then [] else join_sep (rev st) @ ''/'')))"

text \<open>
  A small instance of the libraries, on which the theorems are exercised: a template
  renders to the name it is executed on (and fails on the node name \<^verbatim>\<open>broken\<close>), the decoder
  rejects the document \<^verbatim>\<open>bad\<close> and reads no hosts from \<^verbatim>\<open>nohost\<close>, key generation
  fails for the common name \<^verbatim>\<open>weak\<close>, a signer needs both CA files and refuses to sign
  the request \<^verbatim>\<open>csr:deny\<close>.
\<close>

definition toyDeps :: "(string, string) deps" where
  "toyDeps =
     \<lparr>tplParse = (\<lambda>name text. Inr text),
      tplExecute = (\<lambda>tpl d.
        case d of
          RootData i \<Rightarrow> Inr (CaPrefix i)
        | CertData i \<Rightarrow>
            if Name i = ''broken'' then Inl (ErrorString ''template: cannot evaluate'')
            else Inr (Name i)),
      jsonUnmarshal = (\<lambda>doc req.
        if doc = ''bad'' then Inl (ErrorString ''invalid character'')
        else Inr (req\<lparr>req_CN := doc, req_Hosts := (if doc = ''nohost'' then [] else [doc])\<rparr>)),
      NewKeyRequest = \<lparr>key_algo = ''rsa'', key_size = 2048\<rparr>,
      initcaNew = (\<lambda>req n.
        if req_CN req = ''weak'' then Inl (ErrorString ''key generation failed'')
        else Inr (''cert:'' @ req_CN req, ''csr:'' @ req_CN req, ''key:'' @ req_CN req)),
      ProcessRequest = (\<lambda>req n.
        if req_CN req = ''weak'' then Inl (ErrorString ''key generation failed'')
        else Inr (''csr:'' @ req_CN req, ''key:'' @ req_CN req)),
      NewSigner = (\<lambda>fs ca caKey.
        case (fs ca, fs caKey) of
          (Some (File c), Some (File k)) \<Rightarrow> Inr k
        | _ \<Rightarrow> Inl (ErrorString ''could not read the CA'')),
      Sign = (\<lambda>s r n.
        if sign_Request r = ''csr:deny'' then Inl (ErrorString ''signing refused'')
        else Inr (''signed:'' @ sign_Request r)),
      CSRNoHostMessage = ''This certificate lacks a hosts field''\<rparr>"

definition emptyWorld :: world where
  "emptyWorld = \<lparr>files = Map.empty, trace = [], entropy = 0\<rparr>"

definition srlNode :: "string \<Rightarrow> NodeConfig" where
  "srlNode n = \<lparr>ShortName = n, Kind = ''srl''\<rparr>"

definition linuxNode :: "string \<Rightarrow> NodeConfig" where
  "linuxNode n = \<lparr>ShortName = n, Kind = ''linux''\<rparr>"

text \<open>A topology with one node that needs a CA, and what \<open>toyDeps\<close> makes of lab \<^verbatim>\<open>lab1\<close>.\<close>

definition srlLab :: "(string \<times> NodeConfig) list" where
  "srlLab = [(''r1'', linuxNode ''r1''), (''r2'', srlNode ''r2'')]"

definition toyRootInput :: CaRootInput where
  "toyRootInput =
     \<lparr>CaCommonName = [], CaCountry = [], CaLocality = [],
      CaOrganization = [], CaOrganizationUnit = [], CaExpiry = [],
      CaPrefix = ''lab1'', Names = Map.empty, NamePrefix = ''root-ca''\<rparr>"

definition toyRequest :: "string \<Rightarrow> string list \<Rightarrow> CertificateRequest" where
  "toyRequest cn hosts =
     \<lparr>req_CN = cn, req_Hosts = hosts,
      req_KeyRequest = Some \<lparr>key_algo = ''rsa'', key_size = 2048\<rparr>\<rparr>"

definition certInput :: "string \<Rightarrow> CertInput" where
  "certInput n =
     \<lparr>Hosts = [], CommonName = [], Country = [], Locality = [], Organization = [],
      OrganizationUnit = [], Expiry = [], Name = n, LongName = [], Fqdn = [], Prefix = []\<rparr>"

text \<open>A world that holds a root CA pair under \<^verbatim>\<open>ca\<close>.\<close>

definition caWorld :: world where
  "caWorld =
     \<lparr>files = [''ca/root-ca.pem'' \<mapsto> File ''CERT'', ''ca/root-ca-key.pem'' \<mapsto> File ''KEY''],
      trace = [], entropy = 0\<rparr>"

text \<open>A world in which a regular file sits where the directory of node \<^verbatim>\<open>r1\<close> would be.\<close>

definition fileAtNodeDir :: world where
  "fileAtNodeDir = \<lparr>files = [''lab/r1'' \<mapsto> File ''x''], trace = [], entropy = 0\<rparr>"

section \<open>Paths\<close>

text \<open>
  What \<open>Join\<close> does with a plain name: it appends it, after a separator, to the cleaned
  directory. Hence a suffix can be put on a plain name before or after the join, and
  two joins that end in different plain names differ.
\<close>

lemma split_sep_nonempty: "split_sep xs \<noteq> []"
  by (induction xs) (auto split: list.splits)

lemma split_sep_plain: "CHR ''/'' \<notin> set n \<Longrightarrow> split_sep n = [n]"
  by (induction n) auto

lemma split_sep_append: "split_sep (a @ CHR ''/'' # b) = split_sep a @ split_sep b"
proof (induction a)
  case Nil
  show ?case by simp
next
  case (Cons c cs)
  obtain x xs where x: "split_sep cs = x # xs"
    using split_sep_nonempty [of cs] by (cases "split_sep cs") auto
  show ?case using Cons x by simp
qed

lemma join_sep_snoc: "join_sep (xs @ [n]) = (if xs = [] then n else join_sep xs @ ''/'' @ n)"
  by (induction xs rule: join_sep.induct) auto

lemma clean_step_plain: "plainName n \<Longrightarrow> clean_step r st n = n # st"
  by (auto simp: clean_step_def plainName_def)

lemma Clean_plain: "plainName n \<Longrightarrow> Clean n = n"
  by (cases n) (auto simp: Clean_def plainName_def split_sep_plain clean_step_def)

lemma Join_plain: "plainName n \<Longrightarrow> Join a n = dirPrefix a @ n"
proof (cases "a = []")
  case True
  assume "plainName n"
  then show ?thesis using True by (simp add: Join_def dirPrefix_def Clean_plain plainName_def)
next
  case False
  assume n: "plainName n"
  then have sl: "CHR ''/'' \<notin> set n" by (simp add: plainName_def)
  have sp: "split_sep (a @ CHR ''/'' # n) = split_sep a @ [n]"
    using split_sep_append [of a n] split_sep_plain [OF sl] by simp
  have st: "foldl (clean_step r) [] (split_sep (a @ CHR ''/'' # n))
              = n # foldl (clean_step r) [] (split_sep a)" for r
    by (simp add: sp clean_step_plain [OF n])
  have ne: "n \<noteq> []" using n by (simp add: plainName_def)
  show ?thesis
    using False ne
    by (simp add: Join_def Clean_def dirPrefix_def Let_def st join_sep_snoc)
qed

lemma dirPrefix_slash: "dirPrefix a = [] \<or> last (dirPrefix a) = CHR ''/''"
  by (simp add: dirPrefix_def Let_def)

lemma plainName_suffix: "plainName n \<Longrightarrow> CHR ''/'' \<notin> set s \<Longrightarrow> plainName (n @ s)"
  by (cases n; cases "tl n"; cases s) (auto simp: plainName_def)

lemma Join_suffix: "plainName n \<Longrightarrow> CHR ''/'' \<notin> set s \<Longrightarrow> Join a (n @ s) = Join a n @ s"
  by (simp add: Join_plain plainName_suffix)

lemma base_name: 
  assumes "R = [] \<or> last R = CHR ''/''" and "CHR ''/'' \<notin> set n"
  shows "rev (takeWhile (\<lambda>c. c \<noteq> CHR ''/'') (rev (R @ n))) = n"
proof -
  have all: "takeWhile (\<lambda>c. c \<noteq> CHR ''/'') (rev n) = rev n"
    using assms(2) by (auto simp: takeWhile_eq_all_conv)
  show ?thesis
  proof (cases "R = []")
    case True
    then show ?thesis by (simp add: all)
  next
    case False
    then have "last R = CHR ''/''" using assms by simp
    then obtain R' where "R = R' @ [CHR ''/'']" using False by (metis append_butlast_last_id)
    then show ?thesis using assms(2) by (simp add: takeWhile_tail all)
  qed
qed

lemma Join_plain_neq: 
  assumes "plainName m" "plainName n" "m \<noteq> n" shows "Join a m \<noteq> Join b n"
proof
  assume "Join a m = Join b n"
  then have e: "dirPrefix a @ m = dirPrefix b @ n" using assms by (simp add: Join_plain)
  have "rev (takeWhile (\<lambda>c. c \<noteq> CHR ''/'') (rev (dirPrefix a @ m))) = m"
    using base_name[OF dirPrefix_slash] assms(1) by (simp add: plainName_def)
  moreover have "rev (takeWhile (\<lambda>c. c \<noteq> CHR ''/'') (rev (dirPrefix b @ n))) = n"
    using base_name[OF dirPrefix_slash] assms(2) by (simp add: plainName_def)
  ultimately show False using e assms(3) by simp
qed

lemma plainName_root_ca: "plainName ''root-ca''"
  by (simp add: plainName_def)

lemma root_ca_paths:
  "Join r ''root-ca.pem'' = Join r ''root-ca'' @ ''.pem''"
  "Join r ''root-ca-key.pem'' = Join r ''root-ca'' @ ''-key.pem''"
  "Join r ''root-ca.csr'' = Join r ''root-ca'' @ ''.csr''"
  using Join_suffix [OF plainName_root_ca, of "''.pem''" r]
    Join_suffix [OF plainName_root_ca, of "''-key.pem''" r]
    Join_suffix [OF plainName_root_ca, of "''.csr''" r]
  by simp_all

section \<open>The world operations\<close>

lemma files_CreateDirectory:
  "files (CreateDirectory p m w) = (if files w p = None then (files w)(p \<mapsto> Dir) else files w)"
  by (auto simp: CreateDirectory_def split: option.splits)

lemma trace_CreateDirectory [simp]: "trace (CreateDirectory p m w) = trace w"
  by (simp add: CreateDirectory_def split: option.splits)

lemma entropy_CreateDirectory [simp]: "entropy (CreateDirectory p m w) = entropy w"
  by (simp add: CreateDirectory_def split: option.splits)

lemma files_writeCertFiles:
  "files (writeCertFiles certs p w) =
     (files w)(p @ ''.pem'' \<mapsto> File (Cert certs), p @ ''-key.pem'' \<mapsto> File (Key certs),
               p @ ''.csr'' \<mapsto> File (Csr certs))"
  by (simp add: writeCertFiles_def CreateFile_def)

lemma trace_writeCertFiles [simp]: "trace (writeCertFiles certs p w) = trace w"
  by (simp add: writeCertFiles_def CreateFile_def)

lemma entropy_writeCertFiles [simp]: "entropy (writeCertFiles certs p w) = entropy w"
  by (simp add: writeCertFiles_def CreateFile_def)

lemma files_logmsg [simp]: "files (logmsg l m w) = files w"
  by (simp add: logmsg_def)

lemma entropy_logmsg [simp]: "entropy (logmsg l m w) = entropy w"
  by (simp add: logmsg_def)

lemma trace_logmsg [simp]: "trace (logmsg l m w) = trace w @ [Log l m]"
  by (simp add: logmsg_def)

section \<open>The outcomes of the functions\<close>

text \<open>The loop of \<open>CreateRootCA\<close> finds a node of kind \<^verbatim>\<open>srl\<close> iff there is one.\<close>

lemma rootCANeeded_iff: "rootCANeeded ns = (\<exists>n\<in>snd ` set ns. Kind n = ''srl'')"
  by (induction ns) auto

text \<open>\<open>GenerateRootCa\<close>: the success case, the shape of its result, and its first log line.\<close>

lemma GenerateRootCa_ok:
  assumes "tplExecute D tpl (RootData i) = Inr doc"
    and "jsonUnmarshal D doc (newRequest D) = Inr req"
    and "initcaNew D req (entropy w) = Inr (cert, csr, key)"
  shows "GenerateRootCa D r tpl i w =
     ((Some \<lparr>Key = key, Csr = csr, Cert = cert\<rparr>, None),
      writeCertFiles \<lparr>Key = key, Csr = csr, Cert = cert\<rparr> (Join r (NamePrefix i))
        ((CreateDirectory r 493 (logmsg Info ''Creating root CA'' w))\<lparr>entropy := Suc (entropy w)\<rparr>))"
  using assms by (simp add: GenerateRootCa_def Let_def logmsg_def)

lemma GenerateRootCa_shape: "fst (GenerateRootCa D r tpl i w) \<noteq> (None, None)"
  by (simp add: GenerateRootCa_def Let_def split: sum.splits prod.splits)

lemma GenerateRootCa_trace:
  "\<exists>t. trace (snd (GenerateRootCa D r tpl i w)) = trace w @ Log Info ''Creating root CA'' # t"
  by (auto simp: GenerateRootCa_def Let_def split: sum.splits prod.splits)

text \<open>\<open>CreateRootCA\<close> when a CA is needed: the skip, and the bootstrap.\<close>

lemma CreateRootCA_skip:
  assumes "rootCANeeded ns"
    and "files w (Join r ''root-ca.pem'') \<noteq> None" and "files w (Join r ''root-ca-key.pem'') \<noteq> None"
  shows "CreateRootCA D cn r ns w =
     (None, w\<lparr>trace := trace w @ [Stat (Join r ''root-ca.pem''), Stat (Join r ''root-ca-key.pem'')]\<rparr>)"
proof -
  obtain a b where "files w (Join r ''root-ca.pem'') = Some a" "files w (Join r ''root-ca-key.pem'') = Some b"
    using assms by auto
  then show ?thesis using assms(1)
    by (simp add: CreateRootCA_def os_Stat_def Let_def)
qed

lemma CreateRootCA_generate:
  assumes "rootCANeeded ns"
    and "files w (Join r ''root-ca.pem'') = None \<or> files w (Join r ''root-ca-key.pem'') = None"
  shows "CreateRootCA D cn r ns w =
     (let w2 = w\<lparr>trace := trace w @ [Stat (Join r ''root-ca.pem''), Stat (Join r ''root-ca-key.pem'')]\<rparr>
      in case tplParse D ''ca-csr'' rootCACSRTempl of
              Inl err \<Rightarrow> (Some (Errorf ''failed to parse Root CA CSR Template: '' err), w2)
            | Inr tpl \<Rightarrow>
                (case GenerateRootCa D r tpl
                        \<lparr>CaCommonName = [], CaCountry = [], CaLocality = [],
                         CaOrganization = [], CaOrganizationUnit = [], CaExpiry = [],
                         CaPrefix = cn, Names = Map.empty, NamePrefix = ''root-ca''\<rparr> w2 of
                   ((rootCerts, Some err), w3) \<Rightarrow>
                     (Some (Errorf ''failed to generate rootCa: '' err), w3)
                 | ((None, None), w3) \<Rightarrow> (Some nilDereference, w3)
                 | ((Some rootCerts, None), w3) \<Rightarrow>
                     (None, logmsg Debug (''root Key: '' @ Key rootCerts)
                              (logmsg Debug (''root Cert: '' @ Cert rootCerts)
                                 (logmsg Debug (''root CSR: '' @ Csr rootCerts) w3)))))"
proof (cases "files w (Join r ''root-ca.pem'')")
  case None
  then show ?thesis using assms(1)
    by (cases "files w (Join r ''root-ca-key.pem'')")
       (simp_all add: CreateRootCA_def os_Stat_def Let_def
          cong: sum.case_cong prod.case_cong option.case_cong)
next
  case (Some a)
  then have "files w (Join r ''root-ca-key.pem'') = None" using assms(2) by simp
  then show ?thesis using assms(1) Some
    by (simp add: CreateRootCA_def os_Stat_def Let_def
          cong: sum.case_cong prod.case_cong option.case_cong)
qed

lemma CreateRootCA_generated:
  assumes n: "rootCANeeded ns"
    and m: "files w (Join r ''root-ca.pem'') = None \<or> files w (Join r ''root-ca-key.pem'') = None"
    and p: "tplParse D ''ca-csr'' rootCACSRTempl = Inr tpl"
    and e: "tplExecute D tpl (RootData
              \<lparr>CaCommonName = [], CaCountry = [], CaLocality = [],
               CaOrganization = [], CaOrganizationUnit = [], CaExpiry = [],
               CaPrefix = cn, Names = Map.empty, NamePrefix = ''root-ca''\<rparr>) = Inr doc"
    and u: "jsonUnmarshal D doc (newRequest D) = Inr req"
    and k: "initcaNew D req (entropy w) = Inr (cert, csr, key)"
  shows "CreateRootCA D cn r ns w =
     (None,
      logmsg Debug (''root Key: '' @ key)
        (logmsg Debug (''root Cert: '' @ cert)
          (logmsg Debug (''root CSR: '' @ csr)
            (writeCertFiles \<lparr>Key = key, Csr = csr, Cert = cert\<rparr> (Join r ''root-ca'')
              ((CreateDirectory r 493
                  (logmsg Info ''Creating root CA''
                     (w\<lparr>trace := trace w @ [Stat (Join r ''root-ca.pem''),
                                              Stat (Join r ''root-ca-key.pem'')]\<rparr>)))
               \<lparr>entropy := Suc (entropy w)\<rparr>)))))"
proof -
  let ?w2 = "w\<lparr>trace := trace w @ [Stat (Join r ''root-ca.pem''), Stat (Join r ''root-ca-key.pem'')]\<rparr>"
  have k2: "initcaNew D req (entropy ?w2) = Inr (cert, csr, key)" using k by simp
  note g = GenerateRootCa_ok [OF e u k2, of r]
  show ?thesis
    unfolding CreateRootCA_generate [OF n m] Let_def
    by (simp add: p g)
qed

lemma CreateRootCA_attempt:
  assumes n: "rootCANeeded ns"
    and m: "files w (Join r ''root-ca.pem'') = None \<or> files w (Join r ''root-ca-key.pem'') = None"
    and p: "tplParse D ''ca-csr'' rootCACSRTempl = Inr tpl"
  shows "\<exists>t. trace (snd (CreateRootCA D cn r ns w)) =
            trace w @ [Stat (Join r ''root-ca.pem''), Stat (Join r ''root-ca-key.pem''),
                       Log Info ''Creating root CA''] @ t"
proof -
  let ?w2 = "w\<lparr>trace := trace w @ [Stat (Join r ''root-ca.pem''), Stat (Join r ''root-ca-key.pem'')]\<rparr>"
  let ?g = "GenerateRootCa D r tpl
              \<lparr>CaCommonName = [], CaCountry = [], CaLocality = [],
               CaOrganization = [], CaOrganizationUnit = [], CaExpiry = [],
               CaPrefix = cn, Names = Map.empty, NamePrefix = ''root-ca''\<rparr> ?w2"
  note eq = CreateRootCA_generate [OF n m, of D cn, unfolded Let_def]
  obtain c e w3 where g: "?g = ((c, e), w3)" by (metis surj_pair)
  obtain t where t: "trace w3 = trace ?w2 @ Log Info ''Creating root CA'' # t"
    using GenerateRootCa_trace [of D r tpl _ ?w2] g by (metis snd_conv)
  show ?thesis
    using p g t by (cases e; cases c) (simp_all add: eq)
qed

lemma CreateRootCA_trace:
  assumes n: "rootCANeeded ns"
  shows "\<exists>t. trace (snd (CreateRootCA D cn r ns w)) =
            trace w @ [Stat (Join r ''root-ca.pem''), Stat (Join r ''root-ca-key.pem'')] @ t"
proof (cases "files w (Join r ''root-ca.pem'') \<noteq> None \<and> files w (Join r ''root-ca-key.pem'') \<noteq> None")
  case True
  then show ?thesis using CreateRootCA_skip [OF n, of w r D cn] by simp
next
  case False
  then have m: "files w (Join r ''root-ca.pem'') = None \<or> files w (Join r ''root-ca-key.pem'') = None"
    by blast
  show ?thesis
  proof (cases "tplParse D ''ca-csr'' rootCACSRTempl")
    case (Inl e)
    then show ?thesis by (simp add: CreateRootCA_generate [OF n m, of D cn, unfolded Let_def])
  next
    case (Inr tpl)
    from CreateRootCA_attempt [OF n m Inr, of cn] show ?thesis by auto
  qed
qed

text \<open>\<open>GenerateCert\<close>: each of the five failures, the success, and the case analysis.\<close>

lemma GenerateCert_render_fails:
  assumes "tplExecute D tpl (CertData i) = Inl e"
  shows "GenerateCert D ca caKey tpl i t w = ((None, Some e), CreateDirectory t 493 w)"
  using assms by (simp add: GenerateCert_def Let_def)

lemma GenerateCert_unmarshal_fails:
  assumes "tplExecute D tpl (CertData i) = Inr doc"
    and "jsonUnmarshal D doc (newRequest D) = Inl e"
  shows "GenerateCert D ca caKey tpl i t w = ((None, Some e), CreateDirectory t 493 w)"
  using assms by (simp add: GenerateCert_def Let_def)

lemma GenerateCert_keygen_fails:
  assumes "tplExecute D tpl (CertData i) = Inr doc"
    and "jsonUnmarshal D doc (newRequest D) = Inr req"
    and "ProcessRequest D req (entropy w) = Inl e"
  shows "GenerateCert D ca caKey tpl i t w =
     ((None, Some e), (CreateDirectory t 493 w)\<lparr>entropy := Suc (entropy w)\<rparr>)"
  using assms by (simp add: GenerateCert_def Let_def)

lemma GenerateCert_signer_fails:
  assumes "tplExecute D tpl (CertData i) = Inr doc"
    and "jsonUnmarshal D doc (newRequest D) = Inr req"
    and "ProcessRequest D req (entropy w) = Inr (csr, key)"
    and "NewSigner D (files (CreateDirectory t 493 w)) ca caKey = Inl e"
  shows "GenerateCert D ca caKey tpl i t w =
     ((None, Some e), (CreateDirectory t 493 w)\<lparr>entropy := Suc (entropy w)\<rparr>)"
  using assms by (simp add: GenerateCert_def Let_def)

lemma GenerateCert_sign_fails:
  assumes "tplExecute D tpl (CertData i) = Inr doc"
    and "jsonUnmarshal D doc (newRequest D) = Inr req"
    and "ProcessRequest D req (entropy w) = Inr (csr, key)"
    and "NewSigner D (files (CreateDirectory t 493 w)) ca caKey = Inr sg"
    and "Sign D sg \<lparr>sign_Hosts = [], sign_Request = csr\<rparr> (Suc (entropy w)) = Inl e"
  shows "GenerateCert D ca caKey tpl i t w =
     ((None, Some e), (CreateDirectory t 493 w)\<lparr>entropy := Suc (Suc (entropy w))\<rparr>)"
  using assms by (simp add: GenerateCert_def Let_def)

lemma GenerateCert_ok:
  assumes "tplExecute D tpl (CertData i) = Inr doc"
    and "jsonUnmarshal D doc (newRequest D) = Inr req"
    and "ProcessRequest D req (entropy w) = Inr (csr, key)"
    and "NewSigner D (files (CreateDirectory t 493 w)) ca caKey = Inr sg"
    and "Sign D sg \<lparr>sign_Hosts = [], sign_Request = csr\<rparr> (Suc (entropy w)) = Inr cert"
  shows "GenerateCert D ca caKey tpl i t w =
     ((Some \<lparr>Key = key, Csr = csr, Cert = cert\<rparr>, None),
      writeCertFiles \<lparr>Key = key, Csr = csr, Cert = cert\<rparr> (Join t (Name i))
        (if req_Hosts req = []
         then logmsg Warning (CSRNoHostMessage D)
                ((CreateDirectory t 493 w)\<lparr>entropy := Suc (Suc (entropy w))\<rparr>)
         else (CreateDirectory t 493 w)\<lparr>entropy := Suc (Suc (entropy w))\<rparr>))"
  using assms by (simp add: GenerateCert_def Let_def)

lemma GenerateCert_cases:
  obtains (render) e where "tplExecute D tpl (CertData i) = Inl e"
  | (unmarshal) doc e where "tplExecute D tpl (CertData i) = Inr doc"
      "jsonUnmarshal D doc (newRequest D) = Inl e"
  | (keygen) doc req e where "tplExecute D tpl (CertData i) = Inr doc"
      "jsonUnmarshal D doc (newRequest D) = Inr req"
      "ProcessRequest D req (entropy w) = Inl e"
  | (signer) doc req csr key e where "tplExecute D tpl (CertData i) = Inr doc"
      "jsonUnmarshal D doc (newRequest D) = Inr req"
      "ProcessRequest D req (entropy w) = Inr (csr, key)"
      "NewSigner D (files (CreateDirectory t 493 w)) ca caKey = Inl e"
  | (sign) doc req csr key sg e where "tplExecute D tpl (CertData i) = Inr doc"
      "jsonUnmarshal D doc (newRequest D) = Inr req"
      "ProcessRequest D req (entropy w) = Inr (csr, key)"
      "NewSigner D (files (CreateDirectory t 493 w)) ca caKey = Inr sg"
      "Sign D sg \<lparr>sign_Hosts = [], sign_Request = csr\<rparr> (Suc (entropy w)) = Inl e"
  | (ok) doc req csr key sg cert where "tplExecute D tpl (CertData i) = Inr doc"
      "jsonUnmarshal D doc (newRequest D) = Inr req"
      "ProcessRequest D req (entropy w) = Inr (csr, key)"
      "NewSigner D (files (CreateDirectory t 493 w)) ca caKey = Inr sg"
      "Sign D sg \<lparr>sign_Hosts = [], sign_Request = csr\<rparr> (Suc (entropy w)) = Inr cert"
proof (cases "tplExecute D tpl (CertData i)")
  case (Inl e)
  then show ?thesis by (rule render)
next
  case doc: (Inr doc)
  show ?thesis
  proof (cases "jsonUnmarshal D doc (newRequest D)")
    case (Inl e)
    with doc show ?thesis by (rule unmarshal)
  next
    case req: (Inr req)
    show ?thesis
    proof (cases "ProcessRequest D req (entropy w)")
      case (Inl e)
      with doc req show ?thesis by (rule keygen)
    next
      case (Inr ck)
      then obtain csr key where ck: "ProcessRequest D req (entropy w) = Inr (csr, key)"
        by (cases ck) auto
      show ?thesis
      proof (cases "NewSigner D (files (CreateDirectory t 493 w)) ca caKey")
        case (Inl e)
        with doc req ck show ?thesis by (rule signer)
      next
        case sg: (Inr sg)
        show ?thesis
        proof (cases "Sign D sg \<lparr>sign_Hosts = [], sign_Request = csr\<rparr> (Suc (entropy w))")
          case (Inl e)
          with doc req ck sg show ?thesis by (rule sign)
        next
          case (Inr cert)
          with doc req ck sg show ?thesis by (rule ok)
        qed
      qed
    qed
  qed
qed

lemma GenerateCert_returns_bundle:
  assumes "GenerateCert D ca caKey tpl i t w = ((Some certs, e), w')"
  shows "e = None
       \<and> files w' = (files (CreateDirectory t 493 w))
           (Join t (Name i) @ ''.pem'' \<mapsto> File (Cert certs),
            Join t (Name i) @ ''-key.pem'' \<mapsto> File (Key certs),
            Join t (Name i) @ ''.csr'' \<mapsto> File (Csr certs))"
proof (cases rule: GenerateCert_cases [where D = D and tpl = tpl and i = i and w = w and t = t and ca = ca and caKey = caKey])
  case (render e)
  from GenerateCert_render_fails [OF this, of ca caKey t w] assms show ?thesis by simp
next
  case (unmarshal doc e)
  from GenerateCert_unmarshal_fails [OF this, of ca caKey t w] assms show ?thesis by simp
next
  case (keygen doc req e)
  from GenerateCert_keygen_fails [OF this, of ca caKey t] assms show ?thesis by simp
next
  case (signer doc req csr key e)
  from GenerateCert_signer_fails [OF this] assms show ?thesis by simp
next
  case (sign doc req csr key sg e)
  from GenerateCert_sign_fails [OF this] assms show ?thesis by simp
next
  case (ok doc req csr key sg cert)
  from GenerateCert_ok [OF this] assms show ?thesis
    by (auto simp: files_writeCertFiles)
qed

lemma GenerateCert_nil_error_iff:
  "snd (fst (GenerateCert D ca caKey tpl i t w)) = None \<longleftrightarrow>
     (\<exists>doc req csr key sg cert.
        tplExecute D tpl (CertData i) = Inr doc
      \<and> jsonUnmarshal D doc (newRequest D) = Inr req
      \<and> ProcessRequest D req (entropy w) = Inr (csr, key)
      \<and> NewSigner D (files (CreateDirectory t 493 w)) ca caKey = Inr sg
      \<and> Sign D sg \<lparr>sign_Hosts = [], sign_Request = csr\<rparr> (Suc (entropy w)) = Inr cert)"
proof (cases rule: GenerateCert_cases [where D = D and tpl = tpl and i = i and w = w and t = t and ca = ca and caKey = caKey])
  case (render e)
  from GenerateCert_render_fails [OF this, of ca caKey t w] render show ?thesis by simp
next
  case (unmarshal doc e)
  from GenerateCert_unmarshal_fails [OF this, of ca caKey t w] unmarshal show ?thesis by simp
next
  case (keygen doc req e)
  from GenerateCert_keygen_fails [OF this, of ca caKey t] keygen show ?thesis by simp
next
  case (signer doc req csr key e)
  from GenerateCert_signer_fails [OF this] signer show ?thesis by simp
next
  case (sign doc req csr key sg e)
  from GenerateCert_sign_fails [OF this] sign show ?thesis by simp
next
  case (ok doc req csr key sg cert)
  from GenerateCert_ok [OF this] ok show ?thesis by simp
qed

text \<open>\<open>RetrieveNodeCertData\<close>: the success case, and the CSR it never fills in.\<close>

lemma RetrieveNodeCertData_found:
  assumes "files w (Join l (ShortName n)) = Some Dir"
    and "files w (Join (Join l (ShortName n)) (ShortName n @ ''.pem'')) = Some (File c)"
    and "files w (Join (Join l (ShortName n)) (ShortName n @ ''-key.pem'')) = Some (File k)"
  shows "RetrieveNodeCertData n l w =
     ((Some \<lparr>Key = k, Csr = [], Cert = c\<rparr>, None),
      w\<lparr>trace := trace w @ [Stat (Join l (ShortName n))]\<rparr>)"
  using assms
  by (simp add: RetrieveNodeCertData_def os_Stat_def IsDir_def ReadFileContent_def Let_def)

lemma RetrieveNodeCertData_Csr:
  assumes "RetrieveNodeCertData n l w = ((Some b, e), w')"
  shows "Csr b = []"
  using assms
  by (auto simp: RetrieveNodeCertData_def os_Stat_def Let_def split: sum.splits if_splits)

section \<open>The example worlds and libraries\<close>

text \<open>The paths and library results that the examples below evaluate.\<close>

lemma Join_ca_cert: "Join ''ca'' ''root-ca.pem'' = ''ca/root-ca.pem''" by code_simp

lemma Join_ca_key: "Join ''ca'' ''root-ca-key.pem'' = ''ca/root-ca-key.pem''" by code_simp

lemma Join_ca_csr: "Join ''ca'' ''root-ca.csr'' = ''ca/root-ca.csr''" by code_simp

lemma Join_lab_r1: "Join ''lab'' ''r1'' = ''lab/r1''" by code_simp

lemma Join_r1_prefix: "Join ''lab/r1'' ''r1'' = ''lab/r1/r1''" by code_simp

lemma Join_lab_empty: "Join ''lab'' [] = ''lab''" by code_simp

lemma Join_lab_dotpem: "Join ''lab'' ''.pem'' = ''lab/.pem''" by code_simp

lemma Join_r1_cert: "Join ''lab/r1'' ''r1.pem'' = ''lab/r1/r1.pem''" by code_simp

lemma Join_r1_key: "Join ''lab/r1'' ''r1-key.pem'' = ''lab/r1/r1-key.pem''" by code_simp

lemma srlLab_needed: "rootCANeeded srlLab"
  by (simp add: srlLab_def srlNode_def linuxNode_def)

lemma toy_parse: "tplParse toyDeps ''ca-csr'' rootCACSRTempl = Inr rootCACSRTempl"
  by (simp add: toyDeps_def)

lemma toy_render_root:
  "tplExecute toyDeps rootCACSRTempl (RootData toyRootInput) = Inr ''lab1''"
  by (simp add: toyDeps_def toyRootInput_def)

lemma toy_unmarshal_root:
  "jsonUnmarshal toyDeps ''lab1'' (newRequest toyDeps) = Inr (toyRequest ''lab1'' [''lab1''])"
  by (simp add: toyDeps_def newRequest_def toyRequest_def)

lemma toy_initca:
  "initcaNew toyDeps (toyRequest ''lab1'' [''lab1'']) n = Inr (''cert:lab1'', ''csr:lab1'', ''key:lab1'')"
  by (simp add: toyDeps_def toyRequest_def)

lemma toy_render_cert:
  "n \<noteq> ''broken'' \<Longrightarrow> tplExecute toyDeps tpl (CertData (certInput n)) = Inr n"
  by (simp add: toyDeps_def certInput_def)

lemma toy_render_broken:
  "tplExecute toyDeps tpl (CertData (certInput ''broken''))
     = Inl (ErrorString ''template: cannot evaluate'')"
  by (simp add: toyDeps_def certInput_def)

lemma toy_unmarshal_cert:
  "n \<noteq> ''bad'' \<Longrightarrow> jsonUnmarshal toyDeps n (newRequest toyDeps)
     = Inr (toyRequest n (if n = ''nohost'' then [] else [n]))"
  by (simp add: toyDeps_def newRequest_def toyRequest_def)

lemma toy_unmarshal_bad:
  "jsonUnmarshal toyDeps ''bad'' (newRequest toyDeps) = Inl (ErrorString ''invalid character'')"
  by (simp add: toyDeps_def)

lemma toy_keygen:
  "n \<noteq> ''weak'' \<Longrightarrow> ProcessRequest toyDeps (toyRequest n hs) k = Inr (''csr:'' @ n, ''key:'' @ n)"
  by (simp add: toyDeps_def toyRequest_def)

lemma toy_keygen_weak:
  "ProcessRequest toyDeps (toyRequest ''weak'' hs) k = Inl (ErrorString ''key generation failed'')"
  by (simp add: toyDeps_def toyRequest_def)

lemma toy_signer:
  "NewSigner toyDeps (files (CreateDirectory ''lab/r1'' 493 caWorld))
     ''ca/root-ca.pem'' ''ca/root-ca-key.pem'' = Inr ''KEY''"
  by (simp add: toyDeps_def files_CreateDirectory caWorld_def)

lemma toy_signer_missing:
  "NewSigner toyDeps (files (CreateDirectory ''lab/r1'' 493 emptyWorld))
     ''ca/root-ca.pem'' ''ca/root-ca-key.pem'' = Inl (ErrorString ''could not read the CA'')"
  by (simp add: toyDeps_def files_CreateDirectory emptyWorld_def)

lemma toy_sign:
  "n \<noteq> ''deny'' \<Longrightarrow> Sign toyDeps sg \<lparr>sign_Hosts = [], sign_Request = ''csr:'' @ n\<rparr> k
     = Inr (''signed:csr:'' @ n)"
  by (simp add: toyDeps_def)

lemma toy_sign_deny:
  "Sign toyDeps sg \<lparr>sign_Hosts = [], sign_Request = ''csr:deny''\<rparr> k
     = Inl (ErrorString ''signing refused'')"
  by (simp add: toyDeps_def)

lemma toy_issue_r1:
  "GenerateCert toyDeps ''ca/root-ca.pem'' ''ca/root-ca-key.pem'' tpl (certInput ''r1'') ''lab/r1'' caWorld =
     ((Some \<lparr>Key = ''key:r1'', Csr = ''csr:r1'', Cert = ''signed:csr:r1''\<rparr>, None),
      writeCertFiles \<lparr>Key = ''key:r1'', Csr = ''csr:r1'', Cert = ''signed:csr:r1''\<rparr> ''lab/r1/r1''
        ((CreateDirectory ''lab/r1'' 493 caWorld)\<lparr>entropy := Suc (Suc (entropy caWorld))\<rparr>))"
proof -
  have r: "tplExecute toyDeps tpl (CertData (certInput ''r1'')) = Inr ''r1''"
    by (rule toy_render_cert) simp
  have u: "jsonUnmarshal toyDeps ''r1'' (newRequest toyDeps) = Inr (toyRequest ''r1'' [''r1''])"
    using toy_unmarshal_cert [of "''r1''"] by simp
  have k: "ProcessRequest toyDeps (toyRequest ''r1'' [''r1'']) (entropy caWorld) = Inr (''csr:r1'', ''key:r1'')"
    using toy_keygen [of "''r1''"] by simp
  have g: "Sign toyDeps ''KEY'' \<lparr>sign_Hosts = [], sign_Request = ''csr:r1''\<rparr> (Suc (entropy caWorld))
             = Inr ''signed:csr:r1''"
    using toy_sign [of "''r1''"] by simp
  show ?thesis
    using GenerateCert_ok [OF r u k toy_signer g]
    by (simp add: toyRequest_def Join_r1_prefix certInput_def)
qed

lemma toy_issue_unnamed:
  "GenerateCert toyDeps ''ca/root-ca.pem'' ''ca/root-ca-key.pem'' tpl (certInput []) ''lab'' caWorld =
     ((Some \<lparr>Key = ''key:'', Csr = ''csr:'', Cert = ''signed:csr:''\<rparr>, None),
      writeCertFiles \<lparr>Key = ''key:'', Csr = ''csr:'', Cert = ''signed:csr:''\<rparr> ''lab''
        ((CreateDirectory ''lab'' 493 caWorld)\<lparr>entropy := Suc (Suc (entropy caWorld))\<rparr>))"
proof -
  have r: "tplExecute toyDeps tpl (CertData (certInput [])) = Inr []"
    by (rule toy_render_cert) simp
  have u: "jsonUnmarshal toyDeps [] (newRequest toyDeps) = Inr (toyRequest [] [[]])"
    using toy_unmarshal_cert [of "[]"] by simp
  have k: "ProcessRequest toyDeps (toyRequest [] [[]]) (entropy caWorld) = Inr (''csr:'', ''key:'')"
    using toy_keygen [of "[]"] by simp
  have s: "NewSigner toyDeps (files (CreateDirectory ''lab'' 493 caWorld))
     ''ca/root-ca.pem'' ''ca/root-ca-key.pem'' = Inr ''KEY''"
    by (simp add: toyDeps_def files_CreateDirectory caWorld_def)
  have g: "Sign toyDeps ''KEY'' \<lparr>sign_Hosts = [], sign_Request = ''csr:''\<rparr> (Suc (entropy caWorld))
             = Inr ''signed:csr:''"
    using toy_sign [of "[]"] by simp
  show ?thesis
    using GenerateCert_ok [OF r u k s g]
    by (simp add: toyRequest_def Join_lab_empty certInput_def)
qed

lemma toy_issue_over_file:
  "GenerateCert toyDeps ''ca/root-ca.pem'' ''ca/root-ca-key.pem'' tpl (certInput ''r1'') ''lab/r1''
       (caWorld\<lparr>files := (files caWorld)(''lab/r1'' \<mapsto> File ''x'')\<rparr>) =
     ((Some \<lparr>Key = ''key:r1'', Csr = ''csr:r1'', Cert = ''signed:csr:r1''\<rparr>, None),
      writeCertFiles \<lparr>Key = ''key:r1'', Csr = ''csr:r1'', Cert = ''signed:csr:r1''\<rparr> ''lab/r1/r1''
        (caWorld\<lparr>files := (files caWorld)(''lab/r1'' \<mapsto> File ''x''), entropy := Suc (Suc 0)\<rparr>))"
proof -
  let ?w = "caWorld\<lparr>files := (files caWorld)(''lab/r1'' \<mapsto> File ''x'')\<rparr>"
  have r: "tplExecute toyDeps tpl (CertData (certInput ''r1'')) = Inr ''r1''"
    by (rule toy_render_cert) simp
  have u: "jsonUnmarshal toyDeps ''r1'' (newRequest toyDeps) = Inr (toyRequest ''r1'' [''r1''])"
    using toy_unmarshal_cert [of "''r1''"] by simp
  have k: "ProcessRequest toyDeps (toyRequest ''r1'' [''r1'']) (entropy ?w) = Inr (''csr:r1'', ''key:r1'')"
    using toy_keygen [of "''r1''"] by simp
  have s: "NewSigner toyDeps (files (CreateDirectory ''lab/r1'' 493 ?w))
     ''ca/root-ca.pem'' ''ca/root-ca-key.pem'' = Inr ''KEY''"
    by (simp add: toyDeps_def files_CreateDirectory caWorld_def)
  have g: "Sign toyDeps ''KEY'' \<lparr>sign_Hosts = [], sign_Request = ''csr:r1''\<rparr> (Suc (entropy ?w))
             = Inr ''signed:csr:r1''"
    using toy_sign [of "''r1''"] by simp
  have c: "CreateDirectory ''lab/r1'' 493 ?w = ?w"
    by (simp add: CreateDirectory_def)
  have e: "entropy caWorld = 0" by (simp add: caWorld_def)
  show ?thesis
    using GenerateCert_ok [OF r u k s g]
    by (simp add: toyRequest_def Join_r1_prefix certInput_def c e)
qed

section \<open>The root CA\<close>

text \<open>
  C1. When both \<^verbatim>\<open>root-ca.pem\<close> and \<^verbatim>\<open>root-ca-key.pem\<close> exist under \<^verbatim>\<open>labCARoot\<close>,
  \<open>CreateRootCA\<close> returns \<^verbatim>\<open>nil\<close> and has at most looked at the two paths: no file is
  read, written or compared, no key is generated, nothing is logged. When a CA is needed
  and either file is missing, it parses the root template and goes on to generate: the
  next thing in its trace is the line \<^verbatim>\<open>Creating root CA\<close>. It then renders the template
  on the input whose prefix is the configuration name, decodes the document into a
  request that starts with the library's default key request (the template itself asks
  for a 2048-bit RSA key), self-signs, and, these steps succeeding, writes certificate,
  key and CSR to \<^verbatim>\<open>root-ca.pem\<close>, \<^verbatim>\<open>root-ca-key.pem\<close> and \<^verbatim>\<open>root-ca.csr\<close> under
  \<^verbatim>\<open>labCARoot\<close>, which it creates if absent; one key generation is consumed.
\<close>

theorem CreateRootCA_skips_iff_both_exist:
  assumes R: "R = CreateRootCA D cn r ns w"
  shows "(files w (Join r ''root-ca.pem'') \<noteq> None \<and> files w (Join r ''root-ca-key.pem'') \<noteq> None \<longrightarrow>
            fst R = None \<and> files (snd R) = files w \<and> entropy (snd R) = entropy w
          \<and> trace (snd R) = trace w @
               (if rootCANeeded ns
                then [Stat (Join r ''root-ca.pem''), Stat (Join r ''root-ca-key.pem'')] else []))
       \<and> (rootCANeeded ns \<longrightarrow>
          files w (Join r ''root-ca.pem'') = None \<or> files w (Join r ''root-ca-key.pem'') = None \<longrightarrow>
          tplParse D ''ca-csr'' rootCACSRTempl = Inr tpl \<longrightarrow>
            take (length (trace w) + 3) (trace (snd R)) =
              trace w @ [Stat (Join r ''root-ca.pem''), Stat (Join r ''root-ca-key.pem''),
                         Log Info ''Creating root CA''])
       \<and> (rootCANeeded ns \<longrightarrow>
          files w (Join r ''root-ca.pem'') = None \<or> files w (Join r ''root-ca-key.pem'') = None \<longrightarrow>
          tplParse D ''ca-csr'' rootCACSRTempl = Inr tpl \<longrightarrow>
          tplExecute D tpl (RootData
              \<lparr>CaCommonName = [], CaCountry = [], CaLocality = [],
               CaOrganization = [], CaOrganizationUnit = [], CaExpiry = [],
               CaPrefix = cn, Names = Map.empty, NamePrefix = ''root-ca''\<rparr>) = Inr doc \<longrightarrow>
          jsonUnmarshal D doc (newRequest D) = Inr req \<longrightarrow>
          initcaNew D req (entropy w) = Inr (cert, csr, key) \<longrightarrow>
            fst R = None
          \<and> files (snd R) =
              (files (CreateDirectory r 493 w))
                (Join r ''root-ca.pem'' \<mapsto> File cert,
                 Join r ''root-ca-key.pem'' \<mapsto> File key,
                 Join r ''root-ca.csr'' \<mapsto> File csr)
          \<and> entropy (snd R) = Suc (entropy w)
          \<and> trace (snd R) =
              trace w @ [Stat (Join r ''root-ca.pem''), Stat (Join r ''root-ca-key.pem''),
                         Log Info ''Creating root CA'', Log Debug (''root CSR: '' @ csr),
                         Log Debug (''root Cert: '' @ cert), Log Debug (''root Key: '' @ key)])"
proof (intro conjI impI)
  assume b: "files w (Join r ''root-ca.pem'') \<noteq> None \<and> files w (Join r ''root-ca-key.pem'') \<noteq> None"
  have "R = (None, w\<lparr>trace := trace w @
               (if rootCANeeded ns
                then [Stat (Join r ''root-ca.pem''), Stat (Join r ''root-ca-key.pem'')] else [])\<rparr>)"
  proof (cases "rootCANeeded ns")
    case True
    then show ?thesis using CreateRootCA_skip [OF True, of w r D cn] b by (simp add: R)
  next
    case False
    then show ?thesis by (simp add: R CreateRootCA_def)
  qed
  then show "fst R = None" and "files (snd R) = files w" and "entropy (snd R) = entropy w"
    and "trace (snd R) = trace w @
               (if rootCANeeded ns
                then [Stat (Join r ''root-ca.pem''), Stat (Join r ''root-ca-key.pem'')] else [])"
    by simp_all
next
  assume n: "rootCANeeded ns"
    and m: "files w (Join r ''root-ca.pem'') = None \<or> files w (Join r ''root-ca-key.pem'') = None"
    and p: "tplParse D ''ca-csr'' rootCACSRTempl = Inr tpl"
  from CreateRootCA_attempt [OF n m p, of cn]
  obtain t where "trace (snd R) =
            trace w @ [Stat (Join r ''root-ca.pem''), Stat (Join r ''root-ca-key.pem''),
                       Log Info ''Creating root CA''] @ t"
    unfolding R by blast
  then show "take (length (trace w) + 3) (trace (snd R)) =
              trace w @ [Stat (Join r ''root-ca.pem''), Stat (Join r ''root-ca-key.pem''),
                         Log Info ''Creating root CA'']"
    by simp
next
  assume n: "rootCANeeded ns"
    and m: "files w (Join r ''root-ca.pem'') = None \<or> files w (Join r ''root-ca-key.pem'') = None"
    and p: "tplParse D ''ca-csr'' rootCACSRTempl = Inr tpl"
    and e: "tplExecute D tpl (RootData
              \<lparr>CaCommonName = [], CaCountry = [], CaLocality = [],
               CaOrganization = [], CaOrganizationUnit = [], CaExpiry = [],
               CaPrefix = cn, Names = Map.empty, NamePrefix = ''root-ca''\<rparr>) = Inr doc"
    and u: "jsonUnmarshal D doc (newRequest D) = Inr req"
    and k: "initcaNew D req (entropy w) = Inr (cert, csr, key)"
  note eq = CreateRootCA_generated [OF n m p e u k, folded R]
  show "fst R = None" by (simp add: eq)
  show "files (snd R) =
              (files (CreateDirectory r 493 w))
                (Join r ''root-ca.pem'' \<mapsto> File cert,
                 Join r ''root-ca-key.pem'' \<mapsto> File key,
                 Join r ''root-ca.csr'' \<mapsto> File csr)"
    by (simp add: eq files_writeCertFiles files_CreateDirectory root_ca_paths)
  show "entropy (snd R) = Suc (entropy w)" by (simp add: eq)
  show "trace (snd R) =
              trace w @ [Stat (Join r ''root-ca.pem''), Stat (Join r ''root-ca-key.pem''),
                         Log Info ''Creating root CA'', Log Debug (''root CSR: '' @ csr),
                         Log Debug (''root Cert: '' @ cert), Log Debug (''root Key: '' @ key)]"
    by (simp add: eq)
qed

theorem CreateRootCA_skips_iff_both_exist_witness:
  "rootCANeeded srlLab
   \<and> files caWorld (Join ''ca'' ''root-ca.pem'') \<noteq> None
   \<and> files caWorld (Join ''ca'' ''root-ca-key.pem'') \<noteq> None
   \<and> fst (CreateRootCA toyDeps ''lab1'' ''ca'' srlLab caWorld) = None
   \<and> files (snd (CreateRootCA toyDeps ''lab1'' ''ca'' srlLab caWorld)) = files caWorld
   \<and> entropy (snd (CreateRootCA toyDeps ''lab1'' ''ca'' srlLab caWorld)) = entropy caWorld
   \<and> trace (snd (CreateRootCA toyDeps ''lab1'' ''ca'' srlLab caWorld))
       = [Stat ''ca/root-ca.pem'', Stat ''ca/root-ca-key.pem'']
   \<and> (files emptyWorld (Join ''ca'' ''root-ca.pem'') = None
        \<or> files emptyWorld (Join ''ca'' ''root-ca-key.pem'') = None)
   \<and> tplParse toyDeps ''ca-csr'' rootCACSRTempl = Inr rootCACSRTempl
   \<and> tplExecute toyDeps rootCACSRTempl (RootData toyRootInput) = Inr ''lab1''
   \<and> jsonUnmarshal toyDeps ''lab1'' (newRequest toyDeps) = Inr (toyRequest ''lab1'' [''lab1''])
   \<and> initcaNew toyDeps (toyRequest ''lab1'' [''lab1'']) (entropy emptyWorld)
       = Inr (''cert:lab1'', ''csr:lab1'', ''key:lab1'')
   \<and> take 3 (trace (snd (CreateRootCA toyDeps ''lab1'' ''ca'' srlLab emptyWorld)))
       = [Stat ''ca/root-ca.pem'', Stat ''ca/root-ca-key.pem'', Log Info ''Creating root CA'']
   \<and> fst (CreateRootCA toyDeps ''lab1'' ''ca'' srlLab emptyWorld) = None
   \<and> files (snd (CreateRootCA toyDeps ''lab1'' ''ca'' srlLab emptyWorld))
       = [''ca'' \<mapsto> Dir, ''ca/root-ca.pem'' \<mapsto> File ''cert:lab1'',
          ''ca/root-ca-key.pem'' \<mapsto> File ''key:lab1'', ''ca/root-ca.csr'' \<mapsto> File ''csr:lab1'']
   \<and> entropy (snd (CreateRootCA toyDeps ''lab1'' ''ca'' srlLab emptyWorld)) = 1"
proof -
  have a: "files caWorld (Join ''ca'' ''root-ca.pem'') \<noteq> None
           \<and> files caWorld (Join ''ca'' ''root-ca-key.pem'') \<noteq> None"
    by (simp add: caWorld_def Join_ca_cert Join_ca_key)
  have b: "files emptyWorld (Join ''ca'' ''root-ca.pem'') = None
        \<or> files emptyWorld (Join ''ca'' ''root-ca-key.pem'') = None"
    by (simp add: emptyWorld_def)
  have t0: "trace caWorld = []" by (simp add: caWorld_def)
  note skip = CreateRootCA_skips_iff_both_exist [OF refl,
      where w = caWorld and r = "''ca''" and D = toyDeps and cn = "''lab1''" and ns = srlLab]
  note gen = CreateRootCA_skips_iff_both_exist [OF refl,
      where w = emptyWorld and r = "''ca''" and D = toyDeps and cn = "''lab1''" and ns = srlLab
        and tpl = rootCACSRTempl and doc = "''lab1''" and req = "toyRequest ''lab1'' [''lab1'']"
        and cert = "''cert:lab1''" and csr = "''csr:lab1''" and key = "''key:lab1''"]
  from skip a srlLab_needed
  have 1: "fst (CreateRootCA toyDeps ''lab1'' ''ca'' srlLab caWorld) = None
     \<and> files (snd (CreateRootCA toyDeps ''lab1'' ''ca'' srlLab caWorld)) = files caWorld
     \<and> entropy (snd (CreateRootCA toyDeps ''lab1'' ''ca'' srlLab caWorld)) = entropy caWorld
     \<and> trace (snd (CreateRootCA toyDeps ''lab1'' ''ca'' srlLab caWorld))
         = trace caWorld @ [Stat (Join ''ca'' ''root-ca.pem''), Stat (Join ''ca'' ''root-ca-key.pem'')]"
    by simp
  show ?thesis
    using srlLab_needed a b toy_parse toy_render_root toy_unmarshal_root
      toy_initca [of "entropy emptyWorld"] 1 gen
    by (simp add: toyRootInput_def Join_ca_cert Join_ca_key Join_ca_csr files_CreateDirectory
          emptyWorld_def t0 numeral_3_eq_3)
qed

text \<open>
  C2. Idempotence at the file level: when a call of \<open>CreateRootCA\<close> returned \<^verbatim>\<open>nil\<close>
  and both root files are in place afterwards, a second call with the same arguments
  returns \<^verbatim>\<open>nil\<close> and leaves every file as it is; it generates no key either.
\<close>

theorem CreateRootCA_idempotent:
  assumes "CreateRootCA D cn r ns w = (None, w1)"
    and "files w1 (Join r ''root-ca.pem'') \<noteq> None"
    and "files w1 (Join r ''root-ca-key.pem'') \<noteq> None"
  shows "fst (CreateRootCA D cn r ns w1) = None
       \<and> files (snd (CreateRootCA D cn r ns w1)) = files w1
       \<and> entropy (snd (CreateRootCA D cn r ns w1)) = entropy w1"
proof (cases "rootCANeeded ns")
  case True
  show ?thesis using CreateRootCA_skip [OF True assms(2,3), of D cn] by simp
next
  case False
  then show ?thesis by (simp add: CreateRootCA_def)
qed

theorem CreateRootCA_idempotent_witness:
  "CreateRootCA toyDeps ''lab1'' ''ca'' srlLab emptyWorld
     = (None, snd (CreateRootCA toyDeps ''lab1'' ''ca'' srlLab emptyWorld))
   \<and> files (snd (CreateRootCA toyDeps ''lab1'' ''ca'' srlLab emptyWorld))
        (Join ''ca'' ''root-ca.pem'') \<noteq> None
   \<and> files (snd (CreateRootCA toyDeps ''lab1'' ''ca'' srlLab emptyWorld))
        (Join ''ca'' ''root-ca-key.pem'') \<noteq> None
   \<and> fst (CreateRootCA toyDeps ''lab1'' ''ca'' srlLab
            (snd (CreateRootCA toyDeps ''lab1'' ''ca'' srlLab emptyWorld))) = None
   \<and> files (snd (CreateRootCA toyDeps ''lab1'' ''ca'' srlLab
            (snd (CreateRootCA toyDeps ''lab1'' ''ca'' srlLab emptyWorld))))
       = files (snd (CreateRootCA toyDeps ''lab1'' ''ca'' srlLab emptyWorld))
   \<and> entropy (snd (CreateRootCA toyDeps ''lab1'' ''ca'' srlLab
            (snd (CreateRootCA toyDeps ''lab1'' ''ca'' srlLab emptyWorld))))
       = entropy (snd (CreateRootCA toyDeps ''lab1'' ''ca'' srlLab emptyWorld))"
proof -
  let ?w1 = "snd (CreateRootCA toyDeps ''lab1'' ''ca'' srlLab emptyWorld)"
  have m: "files emptyWorld (Join ''ca'' ''root-ca.pem'') = None
        \<or> files emptyWorld (Join ''ca'' ''root-ca-key.pem'') = None"
    by (simp add: emptyWorld_def)
  note eq = CreateRootCA_generated [OF srlLab_needed m toy_parse
      toy_render_root [unfolded toyRootInput_def]
      toy_unmarshal_root toy_initca [of "entropy emptyWorld"]]
  have first: "CreateRootCA toyDeps ''lab1'' ''ca'' srlLab emptyWorld = (None, ?w1)"
    by (simp add: eq)
  have c: "files ?w1 (Join ''ca'' ''root-ca.pem'') \<noteq> None"
    by (simp add: eq files_writeCertFiles root_ca_paths)
  have k: "files ?w1 (Join ''ca'' ''root-ca-key.pem'') \<noteq> None"
    by (simp add: eq files_writeCertFiles root_ca_paths)
  show ?thesis
    using first c k CreateRootCA_idempotent [OF first c k] by simp
qed

section \<open>Necessity gating\<close>

text \<open>
  C3. \<open>CreateRootCA\<close> goes on to the bootstrap exactly when some node of the map is of a
  kind that needs a CA; in the source the list of such kinds is the single kind
  \<^verbatim>\<open>srl\<close>. The loop's answer does not depend on the order of iteration. When no node
  is of that kind, \<open>CreateRootCA\<close> returns \<^verbatim>\<open>nil\<close> and leaves the world as it was: no
  directory, no file, no log line, not even a look at the root files. When some node is,
  it runs the bootstrap: it checks the two root files; with both present it returns
  \<^verbatim>\<open>nil\<close>; with one missing its result is that of parsing the root template and calling
  \<open>GenerateRootCa\<close>, with the error of either wrapped, so that the next line of its trace
  is \<^verbatim>\<open>Creating root CA\<close> and, the library steps succeeding, the three root files are
  written and a key generation is consumed.
\<close>

theorem CreateRootCA_necessity_gating:
  assumes R: "R = CreateRootCA D cn r ns w"
  shows "(rootCANeeded ns \<longleftrightarrow> (\<exists>n\<in>snd ` set ns. Kind n = ''srl''))
   \<and> (\<not> (\<exists>n\<in>snd ` set ns. Kind n = ''srl'') \<longrightarrow> R = (None, w))
   \<and> ((\<exists>n\<in>snd ` set ns. Kind n = ''srl'') \<longrightarrow>
        take (length (trace w) + 2) (trace (snd R))
          = trace w @ [Stat (Join r ''root-ca.pem''), Stat (Join r ''root-ca-key.pem'')])
   \<and> ((\<exists>n\<in>snd ` set ns. Kind n = ''srl'') \<longrightarrow>
        files w (Join r ''root-ca.pem'') \<noteq> None \<and> files w (Join r ''root-ca-key.pem'') \<noteq> None \<longrightarrow>
        R = (None, w\<lparr>trace := trace w @ [Stat (Join r ''root-ca.pem''),
                                          Stat (Join r ''root-ca-key.pem'')]\<rparr>))
   \<and> ((\<exists>n\<in>snd ` set ns. Kind n = ''srl'') \<longrightarrow>
        files w (Join r ''root-ca.pem'') = None \<or> files w (Join r ''root-ca-key.pem'') = None \<longrightarrow>
        R = (let w2 = w\<lparr>trace := trace w @ [Stat (Join r ''root-ca.pem''),
                                             Stat (Join r ''root-ca-key.pem'')]\<rparr>
             in case tplParse D ''ca-csr'' rootCACSRTempl of
                  Inl err \<Rightarrow> (Some (Errorf ''failed to parse Root CA CSR Template: '' err), w2)
                | Inr tpl \<Rightarrow>
                   (case GenerateRootCa D r tpl
                           \<lparr>CaCommonName = [], CaCountry = [], CaLocality = [],
                            CaOrganization = [], CaOrganizationUnit = [], CaExpiry = [],
                            CaPrefix = cn, Names = Map.empty, NamePrefix = ''root-ca''\<rparr> w2 of
                      ((rootCerts, Some err), w3) \<Rightarrow>
                        (Some (Errorf ''failed to generate rootCa: '' err), w3)
                    | ((None, None), w3) \<Rightarrow> (Some nilDereference, w3)
                    | ((Some rootCerts, None), w3) \<Rightarrow>
                        (None, logmsg Debug (''root Key: '' @ Key rootCerts)
                                 (logmsg Debug (''root Cert: '' @ Cert rootCerts)
                                    (logmsg Debug (''root CSR: '' @ Csr rootCerts) w3))))))
   \<and> ((\<exists>n\<in>snd ` set ns. Kind n = ''srl'') \<longrightarrow>
        files w (Join r ''root-ca.pem'') = None \<or> files w (Join r ''root-ca-key.pem'') = None \<longrightarrow>
        tplParse D ''ca-csr'' rootCACSRTempl = Inr tpl \<longrightarrow>
          take (length (trace w) + 3) (trace (snd R)) =
            trace w @ [Stat (Join r ''root-ca.pem''), Stat (Join r ''root-ca-key.pem''),
                       Log Info ''Creating root CA''])
   \<and> ((\<exists>n\<in>snd ` set ns. Kind n = ''srl'') \<longrightarrow>
        files w (Join r ''root-ca.pem'') = None \<or> files w (Join r ''root-ca-key.pem'') = None \<longrightarrow>
        tplParse D ''ca-csr'' rootCACSRTempl = Inr tpl \<longrightarrow>
        tplExecute D tpl (RootData
            \<lparr>CaCommonName = [], CaCountry = [], CaLocality = [],
             CaOrganization = [], CaOrganizationUnit = [], CaExpiry = [],
             CaPrefix = cn, Names = Map.empty, NamePrefix = ''root-ca''\<rparr>) = Inr doc \<longrightarrow>
        jsonUnmarshal D doc (newRequest D) = Inr req \<longrightarrow>
        initcaNew D req (entropy w) = Inr (cert, csr, key) \<longrightarrow>
          fst R = None
        \<and> files (snd R) =
            (files (CreateDirectory r 493 w))
              (Join r ''root-ca.pem'' \<mapsto> File cert,
               Join r ''root-ca-key.pem'' \<mapsto> File key,
               Join r ''root-ca.csr'' \<mapsto> File csr)
        \<and> entropy (snd R) = Suc (entropy w))"
proof (intro conjI impI)
  show "rootCANeeded ns \<longleftrightarrow> (\<exists>n\<in>snd ` set ns. Kind n = ''srl'')"
    by (rule rootCANeeded_iff)
next
  assume "\<not> (\<exists>n\<in>snd ` set ns. Kind n = ''srl'')"
  then have "\<not> rootCANeeded ns" by (simp add: rootCANeeded_iff)
  then show "R = (None, w)" by (simp add: R CreateRootCA_def)
next
  assume "\<exists>n\<in>snd ` set ns. Kind n = ''srl''"
  then have "rootCANeeded ns" by (simp add: rootCANeeded_iff)
  from CreateRootCA_trace [OF this, of D cn r w]
  obtain t where "trace (snd R) =
            trace w @ [Stat (Join r ''root-ca.pem''), Stat (Join r ''root-ca-key.pem'')] @ t"
    unfolding R by blast
  then show "take (length (trace w) + 2) (trace (snd R))
          = trace w @ [Stat (Join r ''root-ca.pem''), Stat (Join r ''root-ca-key.pem'')]"
    by simp
next
  assume "\<exists>n\<in>snd ` set ns. Kind n = ''srl''"
    and b: "files w (Join r ''root-ca.pem'') \<noteq> None \<and> files w (Join r ''root-ca-key.pem'') \<noteq> None"
  then have n: "rootCANeeded ns" by (simp add: rootCANeeded_iff)
  show "R = (None, w\<lparr>trace := trace w @ [Stat (Join r ''root-ca.pem''),
                                          Stat (Join r ''root-ca-key.pem'')]\<rparr>)"
    using CreateRootCA_skip [OF n, of w r D cn] b by (simp add: R)
next
  assume "\<exists>n\<in>snd ` set ns. Kind n = ''srl''"
    and m: "files w (Join r ''root-ca.pem'') = None \<or> files w (Join r ''root-ca-key.pem'') = None"
  then have n: "rootCANeeded ns" by (simp add: rootCANeeded_iff)
  show "R = (let w2 = w\<lparr>trace := trace w @ [Stat (Join r ''root-ca.pem''),
                                             Stat (Join r ''root-ca-key.pem'')]\<rparr>
             in case tplParse D ''ca-csr'' rootCACSRTempl of
                  Inl err \<Rightarrow> (Some (Errorf ''failed to parse Root CA CSR Template: '' err), w2)
                | Inr tpl \<Rightarrow>
                   (case GenerateRootCa D r tpl
                           \<lparr>CaCommonName = [], CaCountry = [], CaLocality = [],
                            CaOrganization = [], CaOrganizationUnit = [], CaExpiry = [],
                            CaPrefix = cn, Names = Map.empty, NamePrefix = ''root-ca''\<rparr> w2 of
                      ((rootCerts, Some err), w3) \<Rightarrow>
                        (Some (Errorf ''failed to generate rootCa: '' err), w3)
                    | ((None, None), w3) \<Rightarrow> (Some nilDereference, w3)
                    | ((Some rootCerts, None), w3) \<Rightarrow>
                        (None, logmsg Debug (''root Key: '' @ Key rootCerts)
                                 (logmsg Debug (''root Cert: '' @ Cert rootCerts)
                                    (logmsg Debug (''root CSR: '' @ Csr rootCerts) w3)))))"
    unfolding R by (rule CreateRootCA_generate [OF n m])
next
  assume "\<exists>n\<in>snd ` set ns. Kind n = ''srl''"
    and m: "files w (Join r ''root-ca.pem'') = None \<or> files w (Join r ''root-ca-key.pem'') = None"
    and p: "tplParse D ''ca-csr'' rootCACSRTempl = Inr tpl"
  then have n: "rootCANeeded ns" by (simp add: rootCANeeded_iff)
  from CreateRootCA_attempt [OF n m p, of cn]
  obtain t where "trace (snd R) =
            trace w @ [Stat (Join r ''root-ca.pem''), Stat (Join r ''root-ca-key.pem''),
                       Log Info ''Creating root CA''] @ t"
    unfolding R by blast
  then show "take (length (trace w) + 3) (trace (snd R)) =
            trace w @ [Stat (Join r ''root-ca.pem''), Stat (Join r ''root-ca-key.pem''),
                       Log Info ''Creating root CA'']"
    by simp
next
  assume s: "\<exists>n\<in>snd ` set ns. Kind n = ''srl''"
    and m: "files w (Join r ''root-ca.pem'') = None \<or> files w (Join r ''root-ca-key.pem'') = None"
    and p: "tplParse D ''ca-csr'' rootCACSRTempl = Inr tpl"
    and e: "tplExecute D tpl (RootData
            \<lparr>CaCommonName = [], CaCountry = [], CaLocality = [],
             CaOrganization = [], CaOrganizationUnit = [], CaExpiry = [],
             CaPrefix = cn, Names = Map.empty, NamePrefix = ''root-ca''\<rparr>) = Inr doc"
    and u: "jsonUnmarshal D doc (newRequest D) = Inr req"
    and k: "initcaNew D req (entropy w) = Inr (cert, csr, key)"
  from s have n: "rootCANeeded ns" by (simp add: rootCANeeded_iff)
  note eq = CreateRootCA_generated [OF n m p e u k, folded R]
  show "fst R = None" by (simp add: eq)
  show "files (snd R) =
            (files (CreateDirectory r 493 w))
              (Join r ''root-ca.pem'' \<mapsto> File cert,
               Join r ''root-ca-key.pem'' \<mapsto> File key,
               Join r ''root-ca.csr'' \<mapsto> File csr)"
    by (simp add: eq files_writeCertFiles files_CreateDirectory root_ca_paths)
  show "entropy (snd R) = Suc (entropy w)" by (simp add: eq)
qed

theorem CreateRootCA_necessity_gating_witness:
  "\<not> (\<exists>n\<in>snd ` set [(''r1'', linuxNode ''r1'')]. Kind n = ''srl'')
   \<and> CreateRootCA toyDeps ''lab1'' ''ca'' [(''r1'', linuxNode ''r1'')] emptyWorld = (None, emptyWorld)
   \<and> (\<exists>n\<in>snd ` set srlLab. Kind n = ''srl'')
   \<and> files caWorld (Join ''ca'' ''root-ca.pem'') \<noteq> None
   \<and> files caWorld (Join ''ca'' ''root-ca-key.pem'') \<noteq> None
   \<and> CreateRootCA toyDeps ''lab1'' ''ca'' srlLab caWorld
       = (None, caWorld\<lparr>trace := [Stat ''ca/root-ca.pem'', Stat ''ca/root-ca-key.pem'']\<rparr>)
   \<and> (files emptyWorld (Join ''ca'' ''root-ca.pem'') = None
        \<or> files emptyWorld (Join ''ca'' ''root-ca-key.pem'') = None)
   \<and> tplParse toyDeps ''ca-csr'' rootCACSRTempl = Inr rootCACSRTempl
   \<and> tplExecute toyDeps rootCACSRTempl (RootData toyRootInput) = Inr ''lab1''
   \<and> jsonUnmarshal toyDeps ''lab1'' (newRequest toyDeps) = Inr (toyRequest ''lab1'' [''lab1''])
   \<and> initcaNew toyDeps (toyRequest ''lab1'' [''lab1'']) (entropy emptyWorld)
       = Inr (''cert:lab1'', ''csr:lab1'', ''key:lab1'')
   \<and> take 2 (trace (snd (CreateRootCA toyDeps ''lab1'' ''ca'' srlLab emptyWorld)))
        = [Stat ''ca/root-ca.pem'', Stat ''ca/root-ca-key.pem'']
   \<and> take 3 (trace (snd (CreateRootCA toyDeps ''lab1'' ''ca'' srlLab emptyWorld)))
        = [Stat ''ca/root-ca.pem'', Stat ''ca/root-ca-key.pem'', Log Info ''Creating root CA'']
   \<and> fst (CreateRootCA toyDeps ''lab1'' ''ca'' srlLab emptyWorld) = None
   \<and> files (snd (CreateRootCA toyDeps ''lab1'' ''ca'' srlLab emptyWorld))
       = [''ca'' \<mapsto> Dir, ''ca/root-ca.pem'' \<mapsto> File ''cert:lab1'',
          ''ca/root-ca-key.pem'' \<mapsto> File ''key:lab1'', ''ca/root-ca.csr'' \<mapsto> File ''csr:lab1'']
   \<and> entropy (snd (CreateRootCA toyDeps ''lab1'' ''ca'' srlLab emptyWorld)) = 1"
proof -
  have a: "\<not> (\<exists>n\<in>snd ` set [(''r1'', linuxNode ''r1'')]. Kind n = ''srl'')"
    by (simp add: linuxNode_def)
  have b: "\<exists>n\<in>snd ` set srlLab. Kind n = ''srl''"
    by (simp add: srlLab_def srlNode_def)
  have c: "files caWorld (Join ''ca'' ''root-ca.pem'') \<noteq> None
           \<and> files caWorld (Join ''ca'' ''root-ca-key.pem'') \<noteq> None"
    by (simp add: caWorld_def Join_ca_cert Join_ca_key)
  have m: "files emptyWorld (Join ''ca'' ''root-ca.pem'') = None
        \<or> files emptyWorld (Join ''ca'' ''root-ca-key.pem'') = None"
    by (simp add: emptyWorld_def)
  have t0: "trace caWorld = []" by (simp add: caWorld_def)
  note none = CreateRootCA_necessity_gating [OF refl, where ns = "[(''r1'', linuxNode ''r1'')]"
      and D = toyDeps and cn = "''lab1''" and r = "''ca''" and w = emptyWorld
      and tpl = rootCACSRTempl and doc = "''lab1''" and req = "toyRequest ''lab1'' [''lab1'']"
      and cert = "''cert:lab1''" and csr = "''csr:lab1''" and key = "''key:lab1''"]
  note skip = CreateRootCA_necessity_gating [OF refl, where ns = srlLab
      and D = toyDeps and cn = "''lab1''" and r = "''ca''" and w = caWorld
      and tpl = rootCACSRTempl and doc = "''lab1''" and req = "toyRequest ''lab1'' [''lab1'']"
      and cert = "''cert:lab1''" and csr = "''csr:lab1''" and key = "''key:lab1''"]
  note gen = CreateRootCA_necessity_gating [OF refl, where ns = srlLab
      and D = toyDeps and cn = "''lab1''" and r = "''ca''" and w = emptyWorld
      and tpl = rootCACSRTempl and doc = "''lab1''" and req = "toyRequest ''lab1'' [''lab1'']"
      and cert = "''cert:lab1''" and csr = "''csr:lab1''" and key = "''key:lab1''"]
  from none a
  have 1: "CreateRootCA toyDeps ''lab1'' ''ca'' [(''r1'', linuxNode ''r1'')] emptyWorld = (None, emptyWorld)"
    by blast
  from skip b c
  have 2: "CreateRootCA toyDeps ''lab1'' ''ca'' srlLab caWorld
       = (None, caWorld\<lparr>trace := trace caWorld @ [Stat (Join ''ca'' ''root-ca.pem''),
                                                    Stat (Join ''ca'' ''root-ca-key.pem'')]\<rparr>)"
    by blast
  from gen b
  have 3: "take (length (trace emptyWorld) + 2)
             (trace (snd (CreateRootCA toyDeps ''lab1'' ''ca'' srlLab emptyWorld)))
           = trace emptyWorld @ [Stat (Join ''ca'' ''root-ca.pem''), Stat (Join ''ca'' ''root-ca-key.pem'')]"
    by blast
  from gen b m toy_parse
  have 4: "take (length (trace emptyWorld) + 3)
             (trace (snd (CreateRootCA toyDeps ''lab1'' ''ca'' srlLab emptyWorld)))
           = trace emptyWorld @ [Stat (Join ''ca'' ''root-ca.pem''), Stat (Join ''ca'' ''root-ca-key.pem''),
                                 Log Info ''Creating root CA'']"
    by blast
  from gen b m toy_parse toy_render_root [unfolded toyRootInput_def] toy_unmarshal_root
    toy_initca [of "entropy emptyWorld"]
  have 5: "fst (CreateRootCA toyDeps ''lab1'' ''ca'' srlLab emptyWorld) = None
     \<and> files (snd (CreateRootCA toyDeps ''lab1'' ''ca'' srlLab emptyWorld)) =
            (files (CreateDirectory ''ca'' 493 emptyWorld))
              (Join ''ca'' ''root-ca.pem'' \<mapsto> File ''cert:lab1'',
               Join ''ca'' ''root-ca-key.pem'' \<mapsto> File ''key:lab1'',
               Join ''ca'' ''root-ca.csr'' \<mapsto> File ''csr:lab1'')
     \<and> entropy (snd (CreateRootCA toyDeps ''lab1'' ''ca'' srlLab emptyWorld)) = Suc (entropy emptyWorld)"
    by blast
  show ?thesis
    using a b c m toy_parse toy_render_root toy_unmarshal_root toy_initca [of "entropy emptyWorld"]
      1 2 3 4 5
    by (simp add: Join_ca_cert Join_ca_key Join_ca_csr files_CreateDirectory emptyWorld_def t0
          numeral_2_eq_2 numeral_3_eq_3)
qed

section \<open>The certificate store and the issuer\<close>

text \<open>
  C5. Persisting a bundle under a prefix writes exactly three files: the certificate to
  \<^verbatim>\<open><prefix>.pem\<close>, the key to \<^verbatim>\<open><prefix>-key.pem\<close> and the CSR to \<^verbatim>\<open><prefix>.csr\<close>.
  The three names differ from each other, depend on the prefix alone, and every other
  path keeps what it held. \<open>GenerateCert\<close> persists under the prefix
  \<^verbatim>\<open>Join(targetPath, input.Name)\<close> after creating \<^verbatim>\<open>targetPath\<close>, and creating a directory
  means: a directory appears if nothing was at the path, and nothing changes otherwise;
  it never fails.
\<close>

theorem writeCertFiles_layout:
  "files (writeCertFiles certs p w) =
     (files w)(p @ ''.pem'' \<mapsto> File (Cert certs),
               p @ ''-key.pem'' \<mapsto> File (Key certs),
               p @ ''.csr'' \<mapsto> File (Csr certs))
   \<and> distinct [p @ ''.pem'', p @ ''-key.pem'', p @ ''.csr'']
   \<and> (\<forall>q. q \<notin> {p @ ''.pem'', p @ ''-key.pem'', p @ ''.csr''} \<longrightarrow>
          files (writeCertFiles certs p w) q = files w q)
   \<and> (GenerateCert D ca caKey tpl i t w = ((Some certs, None), w') \<longrightarrow>
        files w' = (files (CreateDirectory t 493 w))
           (Join t (Name i) @ ''.pem'' \<mapsto> File (Cert certs),
            Join t (Name i) @ ''-key.pem'' \<mapsto> File (Key certs),
            Join t (Name i) @ ''.csr'' \<mapsto> File (Csr certs)))
   \<and> files (CreateDirectory t 493 w) = (if files w t = None then (files w)(t \<mapsto> Dir) else files w)"
proof (intro conjI impI allI)
  show "files (writeCertFiles certs p w) =
     (files w)(p @ ''.pem'' \<mapsto> File (Cert certs),
               p @ ''-key.pem'' \<mapsto> File (Key certs),
               p @ ''.csr'' \<mapsto> File (Csr certs))"
    by (rule files_writeCertFiles)
  show "distinct [p @ ''.pem'', p @ ''-key.pem'', p @ ''.csr'']" by simp
  show "files (writeCertFiles certs p w) q = files w q"
    if "q \<notin> {p @ ''.pem'', p @ ''-key.pem'', p @ ''.csr''}" for q
    using that by (simp add: files_writeCertFiles)
  show "files w' = (files (CreateDirectory t 493 w))
           (Join t (Name i) @ ''.pem'' \<mapsto> File (Cert certs),
            Join t (Name i) @ ''-key.pem'' \<mapsto> File (Key certs),
            Join t (Name i) @ ''.csr'' \<mapsto> File (Csr certs))"
    if "GenerateCert D ca caKey tpl i t w = ((Some certs, None), w')"
    using GenerateCert_returns_bundle [OF that] by simp
  show "files (CreateDirectory t 493 w) = (if files w t = None then (files w)(t \<mapsto> Dir) else files w)"
    by (rule files_CreateDirectory)
qed

theorem writeCertFiles_layout_witness:
  "''other'' \<notin> {''lab/r1/r1'' @ ''.pem'', ''lab/r1/r1'' @ ''-key.pem'', ''lab/r1/r1'' @ ''.csr''}
   \<and> files (writeCertFiles \<lparr>Key = ''key:r1'', Csr = ''csr:r1'', Cert = ''signed:csr:r1''\<rparr>
               ''lab/r1/r1'' caWorld) ''other''
       = files caWorld ''other''
   \<and> GenerateCert toyDeps ''ca/root-ca.pem'' ''ca/root-ca-key.pem'' ''tpl'' (certInput ''r1'') ''lab/r1'' caWorld
       = ((Some \<lparr>Key = ''key:r1'', Csr = ''csr:r1'', Cert = ''signed:csr:r1''\<rparr>, None),
          snd (GenerateCert toyDeps ''ca/root-ca.pem'' ''ca/root-ca-key.pem'' ''tpl''
                 (certInput ''r1'') ''lab/r1'' caWorld))
   \<and> files (snd (GenerateCert toyDeps ''ca/root-ca.pem'' ''ca/root-ca-key.pem'' ''tpl''
                 (certInput ''r1'') ''lab/r1'' caWorld))
       = (files (CreateDirectory ''lab/r1'' 493 caWorld))
           (''lab/r1/r1.pem'' \<mapsto> File ''signed:csr:r1'',
            ''lab/r1/r1-key.pem'' \<mapsto> File ''key:r1'',
            ''lab/r1/r1.csr'' \<mapsto> File ''csr:r1'')
   \<and> files (CreateDirectory ''lab/r1'' 493 caWorld) ''lab/r1'' = Some Dir"
proof -
  let ?G = "GenerateCert toyDeps ''ca/root-ca.pem'' ''ca/root-ca-key.pem'' ''tpl''
              (certInput ''r1'') ''lab/r1'' caWorld"
  let ?B = "\<lparr>Key = ''key:r1'', Csr = ''csr:r1'', Cert = ''signed:csr:r1''\<rparr>"
  have q: "''other'' \<notin> {''lab/r1/r1'' @ ''.pem'', ''lab/r1/r1'' @ ''-key.pem'', ''lab/r1/r1'' @ ''.csr''}"
    by simp
  have g: "?G = ((Some ?B, None), snd ?G)"
    by (simp add: toy_issue_r1)
  have n: "Name (certInput ''r1'') = ''r1''" by (simp add: certInput_def)
  have d: "files caWorld ''lab/r1'' = None" by (simp add: caWorld_def)
  note th = writeCertFiles_layout [where p = "''lab/r1/r1''" and D = toyDeps
        and ca = "''ca/root-ca.pem''" and caKey = "''ca/root-ca-key.pem''" and tpl = "''tpl''"
        and i = "certInput ''r1''" and t = "''lab/r1''" and w = caWorld
        and certs = ?B and w' = "snd ?G"]
  from th have 1: "files (writeCertFiles ?B ''lab/r1/r1'' caWorld) ''other'' = files caWorld ''other''"
    using q by blast
  from th g have 2: "files (snd ?G) = (files (CreateDirectory ''lab/r1'' 493 caWorld))
           (Join ''lab/r1'' (Name (certInput ''r1'')) @ ''.pem'' \<mapsto> File (Cert ?B),
            Join ''lab/r1'' (Name (certInput ''r1'')) @ ''-key.pem'' \<mapsto> File (Key ?B),
            Join ''lab/r1'' (Name (certInput ''r1'')) @ ''.csr'' \<mapsto> File (Csr ?B))"
    by blast
  from th have 3: "files (CreateDirectory ''lab/r1'' 493 caWorld)
      = (if files caWorld ''lab/r1'' = None then (files caWorld)(''lab/r1'' \<mapsto> Dir) else files caWorld)"
    by blast
  show ?thesis
    using q g 1 2 3 by (simp add: n d Join_r1_prefix)
qed

text \<open>
  C6. When all five steps succeed, \<open>GenerateCert\<close> returns the bundle with a \<^verbatim>\<open>nil\<close>
  error and persists it, whatever the request's host list is; an empty host list adds
  one warning to the log and nothing else. No failure is swallowed: the returned error
  is \<^verbatim>\<open>nil\<close> exactly when every step succeeded.
\<close>

theorem GenerateCert_empty_hosts_only_warns:
  "(tplExecute D tpl (CertData i) = Inr doc \<longrightarrow>
    jsonUnmarshal D doc (newRequest D) = Inr req \<longrightarrow>
    ProcessRequest D req (entropy w) = Inr (csr, key) \<longrightarrow>
    NewSigner D (files (CreateDirectory t 493 w)) ca caKey = Inr sg \<longrightarrow>
    Sign D sg \<lparr>sign_Hosts = [], sign_Request = csr\<rparr> (Suc (entropy w)) = Inr cert \<longrightarrow>
      fst (GenerateCert D ca caKey tpl i t w) = (Some \<lparr>Key = key, Csr = csr, Cert = cert\<rparr>, None)
    \<and> files (snd (GenerateCert D ca caKey tpl i t w)) =
        (files (CreateDirectory t 493 w))
           (Join t (Name i) @ ''.pem'' \<mapsto> File cert,
            Join t (Name i) @ ''-key.pem'' \<mapsto> File key,
            Join t (Name i) @ ''.csr'' \<mapsto> File csr)
    \<and> trace (snd (GenerateCert D ca caKey tpl i t w)) =
        trace w @ (if req_Hosts req = [] then [Log Warning (CSRNoHostMessage D)] else []))
   \<and> (snd (fst (GenerateCert D ca caKey tpl i t w)) = None \<longleftrightarrow>
       (\<exists>doc req csr key sg cert.
          tplExecute D tpl (CertData i) = Inr doc
        \<and> jsonUnmarshal D doc (newRequest D) = Inr req
        \<and> ProcessRequest D req (entropy w) = Inr (csr, key)
        \<and> NewSigner D (files (CreateDirectory t 493 w)) ca caKey = Inr sg
        \<and> Sign D sg \<lparr>sign_Hosts = [], sign_Request = csr\<rparr> (Suc (entropy w)) = Inr cert))"
proof (intro conjI impI)
  assume s: "tplExecute D tpl (CertData i) = Inr doc" "jsonUnmarshal D doc (newRequest D) = Inr req"
    "ProcessRequest D req (entropy w) = Inr (csr, key)"
    "NewSigner D (files (CreateDirectory t 493 w)) ca caKey = Inr sg"
    "Sign D sg \<lparr>sign_Hosts = [], sign_Request = csr\<rparr> (Suc (entropy w)) = Inr cert"
  note eq = GenerateCert_ok [OF s]
  show "fst (GenerateCert D ca caKey tpl i t w) = (Some \<lparr>Key = key, Csr = csr, Cert = cert\<rparr>, None)"
    by (simp add: eq)
  show "files (snd (GenerateCert D ca caKey tpl i t w)) =
        (files (CreateDirectory t 493 w))
           (Join t (Name i) @ ''.pem'' \<mapsto> File cert,
            Join t (Name i) @ ''-key.pem'' \<mapsto> File key,
            Join t (Name i) @ ''.csr'' \<mapsto> File csr)"
    by (simp add: eq files_writeCertFiles)
  show "trace (snd (GenerateCert D ca caKey tpl i t w)) =
        trace w @ (if req_Hosts req = [] then [Log Warning (CSRNoHostMessage D)] else [])"
    by (simp add: eq)
next
  show "snd (fst (GenerateCert D ca caKey tpl i t w)) = None \<longleftrightarrow>
       (\<exists>doc req csr key sg cert.
          tplExecute D tpl (CertData i) = Inr doc
        \<and> jsonUnmarshal D doc (newRequest D) = Inr req
        \<and> ProcessRequest D req (entropy w) = Inr (csr, key)
        \<and> NewSigner D (files (CreateDirectory t 493 w)) ca caKey = Inr sg
        \<and> Sign D sg \<lparr>sign_Hosts = [], sign_Request = csr\<rparr> (Suc (entropy w)) = Inr cert)"
    by (rule GenerateCert_nil_error_iff)
qed

theorem GenerateCert_empty_hosts_only_warns_witness:
  "tplExecute toyDeps ''tpl'' (CertData (certInput ''nohost'')) = Inr ''nohost''
   \<and> jsonUnmarshal toyDeps ''nohost'' (newRequest toyDeps) = Inr (toyRequest ''nohost'' [])
   \<and> req_Hosts (toyRequest ''nohost'' []) = []
   \<and> ProcessRequest toyDeps (toyRequest ''nohost'' []) (entropy caWorld)
       = Inr (''csr:nohost'', ''key:nohost'')
   \<and> NewSigner toyDeps (files (CreateDirectory ''lab/r1'' 493 caWorld))
         ''ca/root-ca.pem'' ''ca/root-ca-key.pem'' = Inr ''KEY''
   \<and> Sign toyDeps ''KEY'' \<lparr>sign_Hosts = [], sign_Request = ''csr:nohost''\<rparr> (Suc (entropy caWorld))
       = Inr ''signed:csr:nohost''
   \<and> fst (GenerateCert toyDeps ''ca/root-ca.pem'' ''ca/root-ca-key.pem'' ''tpl''
            (certInput ''nohost'') ''lab/r1'' caWorld)
       = (Some \<lparr>Key = ''key:nohost'', Csr = ''csr:nohost'', Cert = ''signed:csr:nohost''\<rparr>, None)
   \<and> files (snd (GenerateCert toyDeps ''ca/root-ca.pem'' ''ca/root-ca-key.pem'' ''tpl''
            (certInput ''nohost'') ''lab/r1'' caWorld))
       = (files (CreateDirectory ''lab/r1'' 493 caWorld))
           (Join ''lab/r1'' ''nohost'' @ ''.pem'' \<mapsto> File ''signed:csr:nohost'',
            Join ''lab/r1'' ''nohost'' @ ''-key.pem'' \<mapsto> File ''key:nohost'',
            Join ''lab/r1'' ''nohost'' @ ''.csr'' \<mapsto> File ''csr:nohost'')
   \<and> trace (snd (GenerateCert toyDeps ''ca/root-ca.pem'' ''ca/root-ca-key.pem'' ''tpl''
            (certInput ''nohost'') ''lab/r1'' caWorld))
       = [Log Warning ''This certificate lacks a hosts field'']
   \<and> snd (fst (GenerateCert toyDeps ''ca/root-ca.pem'' ''ca/root-ca-key.pem'' ''tpl''
            (certInput ''nohost'') ''lab/r1'' caWorld)) = None"
proof -
  have r: "tplExecute toyDeps ''tpl'' (CertData (certInput ''nohost'')) = Inr ''nohost''"
    by (rule toy_render_cert) simp
  have u: "jsonUnmarshal toyDeps ''nohost'' (newRequest toyDeps) = Inr (toyRequest ''nohost'' [])"
    using toy_unmarshal_cert [of "''nohost''"] by simp
  have h: "req_Hosts (toyRequest ''nohost'' []) = []" by (simp add: toyRequest_def)
  have k: "ProcessRequest toyDeps (toyRequest ''nohost'' []) (entropy caWorld)
             = Inr (''csr:nohost'', ''key:nohost'')"
    using toy_keygen [of "''nohost''"] by simp
  have g: "Sign toyDeps ''KEY'' \<lparr>sign_Hosts = [], sign_Request = ''csr:nohost''\<rparr> (Suc (entropy caWorld))
             = Inr ''signed:csr:nohost''"
    using toy_sign [of "''nohost''"] by simp
  note th = GenerateCert_empty_hosts_only_warns [where D = toyDeps and tpl = "''tpl''"
      and i = "certInput ''nohost''" and doc = "''nohost''" and req = "toyRequest ''nohost'' []"
      and w = caWorld and csr = "''csr:nohost''" and key = "''key:nohost''" and t = "''lab/r1''"
      and ca = "''ca/root-ca.pem''" and caKey = "''ca/root-ca-key.pem''" and sg = "''KEY''"
      and cert = "''signed:csr:nohost''"]
  have n: "Name (certInput ''nohost'') = ''nohost''" by (simp add: certInput_def)
  have m: "CSRNoHostMessage toyDeps = ''This certificate lacks a hosts field''"
    by (simp add: toyDeps_def)
  have t0: "trace caWorld = []" by (simp add: caWorld_def)
  from th r u k toy_signer g
  have c: "fst (GenerateCert toyDeps ''ca/root-ca.pem'' ''ca/root-ca-key.pem'' ''tpl''
            (certInput ''nohost'') ''lab/r1'' caWorld)
       = (Some \<lparr>Key = ''key:nohost'', Csr = ''csr:nohost'', Cert = ''signed:csr:nohost''\<rparr>, None)
    \<and> files (snd (GenerateCert toyDeps ''ca/root-ca.pem'' ''ca/root-ca-key.pem'' ''tpl''
            (certInput ''nohost'') ''lab/r1'' caWorld))
       = (files (CreateDirectory ''lab/r1'' 493 caWorld))
           (Join ''lab/r1'' (Name (certInput ''nohost'')) @ ''.pem'' \<mapsto> File ''signed:csr:nohost'',
            Join ''lab/r1'' (Name (certInput ''nohost'')) @ ''-key.pem'' \<mapsto> File ''key:nohost'',
            Join ''lab/r1'' (Name (certInput ''nohost'')) @ ''.csr'' \<mapsto> File ''csr:nohost'')
    \<and> trace (snd (GenerateCert toyDeps ''ca/root-ca.pem'' ''ca/root-ca-key.pem'' ''tpl''
            (certInput ''nohost'') ''lab/r1'' caWorld))
       = trace caWorld @ (if req_Hosts (toyRequest ''nohost'' []) = []
                           then [Log Warning (CSRNoHostMessage toyDeps)] else [])"
    by blast
  show ?thesis
    using r u h k toy_signer g c by (simp add: n m t0)
qed

text \<open>
  C7. When rendering the template, decoding the request, generating the key, building
  the signer or signing fails, \<open>GenerateCert\<close> returns no bundle and the error of the
  failed step, as it got it; of the file system it has changed nothing but the target
  directory, which it created first if it was absent. None of the three files is
  written.
\<close>

theorem GenerateCert_failure_propagates:
  assumes "R = GenerateCert D ca caKey tpl i t w"
  shows "(tplExecute D tpl (CertData i) = Inl e \<longrightarrow>
            fst R = (None, Some e) \<and> files (snd R) = files (CreateDirectory t 493 w))
       \<and> (tplExecute D tpl (CertData i) = Inr doc \<longrightarrow>
          jsonUnmarshal D doc (newRequest D) = Inl e \<longrightarrow>
            fst R = (None, Some e) \<and> files (snd R) = files (CreateDirectory t 493 w))
       \<and> (tplExecute D tpl (CertData i) = Inr doc \<longrightarrow>
          jsonUnmarshal D doc (newRequest D) = Inr req \<longrightarrow>
          ProcessRequest D req (entropy w) = Inl e \<longrightarrow>
            fst R = (None, Some e) \<and> files (snd R) = files (CreateDirectory t 493 w))
       \<and> (tplExecute D tpl (CertData i) = Inr doc \<longrightarrow>
          jsonUnmarshal D doc (newRequest D) = Inr req \<longrightarrow>
          ProcessRequest D req (entropy w) = Inr (csr, key) \<longrightarrow>
          NewSigner D (files (CreateDirectory t 493 w)) ca caKey = Inl e \<longrightarrow>
            fst R = (None, Some e) \<and> files (snd R) = files (CreateDirectory t 493 w))
       \<and> (tplExecute D tpl (CertData i) = Inr doc \<longrightarrow>
          jsonUnmarshal D doc (newRequest D) = Inr req \<longrightarrow>
          ProcessRequest D req (entropy w) = Inr (csr, key) \<longrightarrow>
          NewSigner D (files (CreateDirectory t 493 w)) ca caKey = Inr sg \<longrightarrow>
          Sign D sg \<lparr>sign_Hosts = [], sign_Request = csr\<rparr> (Suc (entropy w)) = Inl e \<longrightarrow>
            fst R = (None, Some e) \<and> files (snd R) = files (CreateDirectory t 493 w))"
proof (intro conjI impI)
  assume "tplExecute D tpl (CertData i) = Inl e"
  from GenerateCert_render_fails [OF this, of ca caKey t w]
  show "fst R = (None, Some e)" and "files (snd R) = files (CreateDirectory t 493 w)"
    by (simp_all add: assms)
next
  assume "tplExecute D tpl (CertData i) = Inr doc" "jsonUnmarshal D doc (newRequest D) = Inl e"
  from GenerateCert_unmarshal_fails [OF this, of ca caKey t w]
  show "fst R = (None, Some e)" and "files (snd R) = files (CreateDirectory t 493 w)"
    by (simp_all add: assms)
next
  assume "tplExecute D tpl (CertData i) = Inr doc" "jsonUnmarshal D doc (newRequest D) = Inr req"
    "ProcessRequest D req (entropy w) = Inl e"
  from GenerateCert_keygen_fails [OF this, of ca caKey t]
  show "fst R = (None, Some e)" and "files (snd R) = files (CreateDirectory t 493 w)"
    by (simp_all add: assms)
next
  assume "tplExecute D tpl (CertData i) = Inr doc" "jsonUnmarshal D doc (newRequest D) = Inr req"
    "ProcessRequest D req (entropy w) = Inr (csr, key)"
    "NewSigner D (files (CreateDirectory t 493 w)) ca caKey = Inl e"
  from GenerateCert_signer_fails [OF this]
  show "fst R = (None, Some e)" and "files (snd R) = files (CreateDirectory t 493 w)"
    by (simp_all add: assms)
next
  assume "tplExecute D tpl (CertData i) = Inr doc" "jsonUnmarshal D doc (newRequest D) = Inr req"
    "ProcessRequest D req (entropy w) = Inr (csr, key)"
    "NewSigner D (files (CreateDirectory t 493 w)) ca caKey = Inr sg"
    "Sign D sg \<lparr>sign_Hosts = [], sign_Request = csr\<rparr> (Suc (entropy w)) = Inl e"
  from GenerateCert_sign_fails [OF this]
  show "fst R = (None, Some e)" and "files (snd R) = files (CreateDirectory t 493 w)"
    by (simp_all add: assms)
qed

theorem GenerateCert_failure_propagates_witness:
  "tplExecute toyDeps ''tpl'' (CertData (certInput ''broken''))
       = Inl (ErrorString ''template: cannot evaluate'')
   \<and> fst (GenerateCert toyDeps ''ca/root-ca.pem'' ''ca/root-ca-key.pem'' ''tpl''
            (certInput ''broken'') ''lab/r1'' caWorld)
       = (None, Some (ErrorString ''template: cannot evaluate''))
   \<and> files (snd (GenerateCert toyDeps ''ca/root-ca.pem'' ''ca/root-ca-key.pem'' ''tpl''
            (certInput ''broken'') ''lab/r1'' caWorld))
       = files (CreateDirectory ''lab/r1'' 493 caWorld)
   \<and> jsonUnmarshal toyDeps ''bad'' (newRequest toyDeps) = Inl (ErrorString ''invalid character'')
   \<and> fst (GenerateCert toyDeps ''ca/root-ca.pem'' ''ca/root-ca-key.pem'' ''tpl''
            (certInput ''bad'') ''lab/r1'' caWorld)
       = (None, Some (ErrorString ''invalid character''))
   \<and> files (snd (GenerateCert toyDeps ''ca/root-ca.pem'' ''ca/root-ca-key.pem'' ''tpl''
            (certInput ''bad'') ''lab/r1'' caWorld))
       = files (CreateDirectory ''lab/r1'' 493 caWorld)
   \<and> ProcessRequest toyDeps (toyRequest ''weak'' [''weak'']) (entropy caWorld)
       = Inl (ErrorString ''key generation failed'')
   \<and> fst (GenerateCert toyDeps ''ca/root-ca.pem'' ''ca/root-ca-key.pem'' ''tpl''
            (certInput ''weak'') ''lab/r1'' caWorld)
       = (None, Some (ErrorString ''key generation failed''))
   \<and> files (snd (GenerateCert toyDeps ''ca/root-ca.pem'' ''ca/root-ca-key.pem'' ''tpl''
            (certInput ''weak'') ''lab/r1'' caWorld))
       = files (CreateDirectory ''lab/r1'' 493 caWorld)
   \<and> NewSigner toyDeps (files (CreateDirectory ''lab/r1'' 493 emptyWorld))
         ''ca/root-ca.pem'' ''ca/root-ca-key.pem'' = Inl (ErrorString ''could not read the CA'')
   \<and> fst (GenerateCert toyDeps ''ca/root-ca.pem'' ''ca/root-ca-key.pem'' ''tpl''
            (certInput ''r1'') ''lab/r1'' emptyWorld)
       = (None, Some (ErrorString ''could not read the CA''))
   \<and> files (snd (GenerateCert toyDeps ''ca/root-ca.pem'' ''ca/root-ca-key.pem'' ''tpl''
            (certInput ''r1'') ''lab/r1'' emptyWorld))
       = files (CreateDirectory ''lab/r1'' 493 emptyWorld)
   \<and> Sign toyDeps ''KEY'' \<lparr>sign_Hosts = [], sign_Request = ''csr:deny''\<rparr> (Suc (entropy caWorld))
       = Inl (ErrorString ''signing refused'')
   \<and> fst (GenerateCert toyDeps ''ca/root-ca.pem'' ''ca/root-ca-key.pem'' ''tpl''
            (certInput ''deny'') ''lab/r1'' caWorld)
       = (None, Some (ErrorString ''signing refused''))
   \<and> files (snd (GenerateCert toyDeps ''ca/root-ca.pem'' ''ca/root-ca-key.pem'' ''tpl''
            (certInput ''deny'') ''lab/r1'' caWorld))
       = files (CreateDirectory ''lab/r1'' 493 caWorld)"
proof -
  let ?G = "\<lambda>n w. GenerateCert toyDeps ''ca/root-ca.pem'' ''ca/root-ca-key.pem'' ''tpl''
                     (certInput n) ''lab/r1'' w"
  have r: "tplExecute toyDeps ''tpl'' (CertData (certInput n)) = Inr n" if "n \<noteq> ''broken''" for n
    using that by (rule toy_render_cert)
  have u: "jsonUnmarshal toyDeps n (newRequest toyDeps) = Inr (toyRequest n [n])"
    if "n \<noteq> ''bad''" "n \<noteq> ''nohost''" for n
    using toy_unmarshal_cert [of n] that by simp
  note th = GenerateCert_failure_propagates [OF refl, where D = toyDeps and tpl = "''tpl''"
      and ca = "''ca/root-ca.pem''" and caKey = "''ca/root-ca-key.pem''" and t = "''lab/r1''"]
  have 1: "fst (?G ''broken'' caWorld) = (None, Some (ErrorString ''template: cannot evaluate''))
         \<and> files (snd (?G ''broken'' caWorld)) = files (CreateDirectory ''lab/r1'' 493 caWorld)"
    using th [where i = "certInput ''broken''" and w = caWorld
        and e = "ErrorString ''template: cannot evaluate''"] toy_render_broken
    by blast
  have 2: "fst (?G ''bad'' caWorld) = (None, Some (ErrorString ''invalid character''))
         \<and> files (snd (?G ''bad'' caWorld)) = files (CreateDirectory ''lab/r1'' 493 caWorld)"
    using th [where i = "certInput ''bad''" and w = caWorld and doc = "''bad''"
        and e = "ErrorString ''invalid character''"] r [of "''bad''"] toy_unmarshal_bad
    by simp
  have 3: "fst (?G ''weak'' caWorld) = (None, Some (ErrorString ''key generation failed''))
         \<and> files (snd (?G ''weak'' caWorld)) = files (CreateDirectory ''lab/r1'' 493 caWorld)"
    using th [where i = "certInput ''weak''" and w = caWorld and doc = "''weak''"
        and req = "toyRequest ''weak'' [''weak'']"
        and e = "ErrorString ''key generation failed''"] r [of "''weak''"] u [of "''weak''"]
      toy_keygen_weak [of "[''weak'']" "entropy caWorld"]
    by simp
  have 4: "fst (?G ''r1'' emptyWorld) = (None, Some (ErrorString ''could not read the CA''))
         \<and> files (snd (?G ''r1'' emptyWorld)) = files (CreateDirectory ''lab/r1'' 493 emptyWorld)"
    using th [where i = "certInput ''r1''" and w = emptyWorld and doc = "''r1''"
        and req = "toyRequest ''r1'' [''r1'']" and csr = "''csr:r1''" and key = "''key:r1''"
        and e = "ErrorString ''could not read the CA''"] r [of "''r1''"] u [of "''r1''"]
      toy_keygen [of "''r1''" "[''r1'']" "entropy emptyWorld"] toy_signer_missing
    by simp
  have 5: "fst (?G ''deny'' caWorld) = (None, Some (ErrorString ''signing refused''))
         \<and> files (snd (?G ''deny'' caWorld)) = files (CreateDirectory ''lab/r1'' 493 caWorld)"
    using th [where i = "certInput ''deny''" and w = caWorld and doc = "''deny''"
        and req = "toyRequest ''deny'' [''deny'']" and csr = "''csr:deny''" and key = "''key:deny''"
        and sg = "''KEY''" and e = "ErrorString ''signing refused''"] r [of "''deny''"] u [of "''deny''"]
      toy_keygen [of "''deny''" "[''deny'']" "entropy caWorld"] toy_signer
      toy_sign_deny [of "''KEY''" "Suc (entropy caWorld)"]
    by simp
  show ?thesis
    using 1 2 3 4 5 toy_render_broken toy_unmarshal_bad toy_keygen_weak toy_signer_missing
      toy_sign_deny
    by simp
qed

section \<open>Retrieval\<close>

text \<open>
  C8. The function's comment promises an error whenever the certificate or the key file
  of the node does not exist. In the world \<open>fileAtNodeDir\<close> nothing was ever issued for
  node \<^verbatim>\<open>r1\<close>, neither file exists, and a regular file sits at \<^verbatim>\<open>lab/r1\<close>: the
  function returns no bundle and no error.
\<close>

theorem RetrieveNodeCertData_miss_without_error:
  "files fileAtNodeDir (Join (Join ''lab'' ''r1'') ''r1.pem'') = None
   \<and> files fileAtNodeDir (Join (Join ''lab'' ''r1'') ''r1-key.pem'') = None
   \<and> fst (RetrieveNodeCertData (srlNode ''r1'') ''lab'' fileAtNodeDir) = (None, None)"
  by (simp add: Join_lab_r1 Join_r1_cert Join_r1_key srlNode_def fileAtNodeDir_def
        RetrieveNodeCertData_def os_Stat_def IsDir_def Let_def)

text \<open>
  C9. When the path \<^verbatim>\<open>labCADir/<shortName>\<close> exists and is a regular file, not a
  directory, \<open>RetrieveNodeCertData\<close> returns \<^verbatim>\<open>nil, nil\<close>: no bundle and no error. It
  only looked at the path.
\<close>

theorem RetrieveNodeCertData_not_a_directory:
  "files w (Join labCADir (ShortName n)) = Some (File c) \<Longrightarrow>
   RetrieveNodeCertData n labCADir w =
     ((None, None), w\<lparr>trace := trace w @ [Stat (Join labCADir (ShortName n))]\<rparr>)"
  by (simp add: RetrieveNodeCertData_def os_Stat_def IsDir_def Let_def)

theorem RetrieveNodeCertData_not_a_directory_witness:
  "files fileAtNodeDir (Join ''lab'' (ShortName (srlNode ''r1''))) = Some (File ''x'')
   \<and> RetrieveNodeCertData (srlNode ''r1'') ''lab'' fileAtNodeDir
       = ((None, None), fileAtNodeDir\<lparr>trace := [Stat ''lab/r1'']\<rparr>)"
proof -
  have h: "files fileAtNodeDir (Join ''lab'' (ShortName (srlNode ''r1''))) = Some (File ''x'')"
    by (simp add: Join_lab_r1 srlNode_def fileAtNodeDir_def)
  show ?thesis
    using h RetrieveNodeCertData_not_a_directory [OF h]
    by (simp add: Join_lab_r1 srlNode_def fileAtNodeDir_def)
qed

section \<open>Persist, then load\<close>

text \<open>
  C10, as stated, fails for a node whose short name is empty (the zero value of the
  field): \<^verbatim>\<open>filepath.Join\<close> ignores the empty element, so the issuer writes
  \<^verbatim>\<open>lab.pem\<close>, \<^verbatim>\<open>lab-key.pem\<close> and \<^verbatim>\<open>lab.csr\<close> beside the directory \<^verbatim>\<open>lab\<close>, while the
  retriever looks for \<^verbatim>\<open>lab/.pem\<close> inside it and reports that it does not exist.
\<close>

theorem roundtrip_fails_for_empty_ShortName:
  "fst (GenerateCert toyDeps ''ca/root-ca.pem'' ''ca/root-ca-key.pem'' ''tpl''
          (certInput []) (Join ''lab'' []) caWorld)
     = (Some \<lparr>Key = ''key:'', Csr = ''csr:'', Cert = ''signed:csr:''\<rparr>, None)
   \<and> fst (RetrieveNodeCertData \<lparr>ShortName = [], Kind = ''srl''\<rparr> ''lab''
            (snd (GenerateCert toyDeps ''ca/root-ca.pem'' ''ca/root-ca-key.pem'' ''tpl''
                    (certInput []) (Join ''lab'' []) caWorld)))
     = (None, Some (PathError ''open'' ''lab/.pem'' ENOENT))"
proof -
  let ?G = "GenerateCert toyDeps ''ca/root-ca.pem'' ''ca/root-ca-key.pem'' ''tpl''
              (certInput []) ''lab'' caWorld"
  have g: "fst ?G = (Some \<lparr>Key = ''key:'', Csr = ''csr:'', Cert = ''signed:csr:''\<rparr>, None)"
    by (simp add: toy_issue_unnamed)
  have d: "files (snd ?G) ''lab'' = Some Dir"
    unfolding toy_issue_unnamed
    by (simp add: files_writeCertFiles files_CreateDirectory caWorld_def)
  have m: "files (snd ?G) ''lab/.pem'' = None"
    unfolding toy_issue_unnamed
    by (simp add: files_writeCertFiles files_CreateDirectory caWorld_def)
  show ?thesis
    by (simp add: Join_lab_empty Join_lab_dotpem g d m RetrieveNodeCertData_def
          os_Stat_def IsDir_def ReadFileContent_def Let_def)
qed

text \<open>
  C10, amended. Let the node's short name be a plain file name, let the issuer's
  \<^verbatim>\<open>input.Name\<close> be that name and its target the join of \<^verbatim>\<open>labCADir\<close> and the name, and
  let no regular file occupy that path beforehand. If \<open>GenerateCert\<close> returns a bundle,
  then \<open>RetrieveNodeCertData\<close> on the resulting world returns a bundle with the same
  certificate and key bytes and an empty CSR, with a \<^verbatim>\<open>nil\<close> error, and changes no file.
  The \<^verbatim>\<open>.csr\<close> file is on disk with the bundle's CSR, but no retrieval ever returns a
  CSR: the field is empty in every bundle \<open>RetrieveNodeCertData\<close> returns.
\<close>

theorem GenerateCert_then_RetrieveNodeCertData:
  assumes pl: "plainName (ShortName n)"
    and nm: "Name i = ShortName n"
    and dir: "files w (Join labCADir (ShortName n)) = None
              \<or> files w (Join labCADir (ShortName n)) = Some Dir"
    and gen: "GenerateCert D ca caKey tpl i (Join labCADir (ShortName n)) w = ((Some certs, None), w1)"
  shows "fst (RetrieveNodeCertData n labCADir w1)
           = (Some \<lparr>Key = Key certs, Csr = [], Cert = Cert certs\<rparr>, None)
       \<and> files (snd (RetrieveNodeCertData n labCADir w1)) = files w1
       \<and> files w1 (Join (Join labCADir (ShortName n)) (ShortName n) @ ''.csr'')
           = Some (File (Csr certs))
       \<and> (\<forall>n' l w2 b e w3. RetrieveNodeCertData n' l w2 = ((Some b, e), w3) \<longrightarrow> Csr b = [])"
proof -
  let ?sn = "ShortName n"
  let ?d = "Join labCADir ?sn"
  let ?P = "Join ?d ?sn"
  have pem: "Join ?d (?sn @ ''.pem'') = ?P @ ''.pem''"
    and key: "Join ?d (?sn @ ''-key.pem'') = ?P @ ''-key.pem''"
    and csr: "Join ?d (?sn @ ''.csr'') = ?P @ ''.csr''"
    using pl by (simp_all add: Join_suffix)
  have ne: "?d \<noteq> Join ?d (?sn @ s)" if "s \<noteq> []" "CHR ''/'' \<notin> set s" for s
    using Join_plain_neq [OF pl plainName_suffix [OF pl that(2)], of labCADir ?d] that(1) by simp
  have d1: "?d \<noteq> ?P @ ''.pem''" using ne [of "''.pem''"] pem by simp
  have d2: "?d \<noteq> ?P @ ''-key.pem''" using ne [of "''-key.pem''"] key by simp
  have d3: "?d \<noteq> ?P @ ''.csr''" using ne [of "''.csr''"] csr by simp
  have f: "files w1 = (files (CreateDirectory ?d 493 w))
           (?P @ ''.pem'' \<mapsto> File (Cert certs),
            ?P @ ''-key.pem'' \<mapsto> File (Key certs),
            ?P @ ''.csr'' \<mapsto> File (Csr certs))"
    using GenerateCert_returns_bundle [OF gen] nm by simp
  have cd: "files (CreateDirectory ?d 493 w) ?d = Some Dir"
    using dir by (auto simp: files_CreateDirectory)
  have a: "files w1 ?d = Some Dir"
    using d1 d2 d3 cd by (simp add: f)
  have b: "files w1 (Join ?d (?sn @ ''.pem'')) = Some (File (Cert certs))"
    by (simp add: f pem)
  have c: "files w1 (Join ?d (?sn @ ''-key.pem'')) = Some (File (Key certs))"
    by (simp add: f key)
  have r: "files w1 (?P @ ''.csr'') = Some (File (Csr certs))"
    by (simp add: f)
  show ?thesis
    using r RetrieveNodeCertData_Csr by (simp add: RetrieveNodeCertData_found [OF a b c])
qed

theorem GenerateCert_then_RetrieveNodeCertData_witness:
  "plainName (ShortName (srlNode ''r1''))
   \<and> Name (certInput ''r1'') = ShortName (srlNode ''r1'')
   \<and> files caWorld (Join ''lab'' (ShortName (srlNode ''r1''))) = None
   \<and> GenerateCert toyDeps ''ca/root-ca.pem'' ''ca/root-ca-key.pem'' ''tpl'' (certInput ''r1'')
         (Join ''lab'' (ShortName (srlNode ''r1''))) caWorld
       = ((Some \<lparr>Key = ''key:r1'', Csr = ''csr:r1'', Cert = ''signed:csr:r1''\<rparr>, None),
          snd (GenerateCert toyDeps ''ca/root-ca.pem'' ''ca/root-ca-key.pem'' ''tpl''
                 (certInput ''r1'') ''lab/r1'' caWorld))
   \<and> fst (RetrieveNodeCertData (srlNode ''r1'') ''lab''
            (snd (GenerateCert toyDeps ''ca/root-ca.pem'' ''ca/root-ca-key.pem'' ''tpl''
                    (certInput ''r1'') ''lab/r1'' caWorld)))
       = (Some \<lparr>Key = ''key:r1'', Csr = [], Cert = ''signed:csr:r1''\<rparr>, None)
   \<and> files (snd (GenerateCert toyDeps ''ca/root-ca.pem'' ''ca/root-ca-key.pem'' ''tpl''
                    (certInput ''r1'') ''lab/r1'' caWorld)) ''lab/r1/r1.csr''
       = Some (File ''csr:r1'')"
proof -
  let ?G = "GenerateCert toyDeps ''ca/root-ca.pem'' ''ca/root-ca-key.pem'' ''tpl''
              (certInput ''r1'') ''lab/r1'' caWorld"
  let ?B = "\<lparr>Key = ''key:r1'', Csr = ''csr:r1'', Cert = ''signed:csr:r1''\<rparr>"
  have sn: "ShortName (srlNode ''r1'') = ''r1''" by (simp add: srlNode_def)
  have pl: "plainName (ShortName (srlNode ''r1''))" by (simp add: sn plainName_def)
  have nm: "Name (certInput ''r1'') = ShortName (srlNode ''r1'')" by (simp add: sn certInput_def)
  have d: "files caWorld (Join ''lab'' (ShortName (srlNode ''r1''))) = None"
    by (simp add: sn Join_lab_r1 caWorld_def)
  have g: "GenerateCert toyDeps ''ca/root-ca.pem'' ''ca/root-ca-key.pem'' ''tpl'' (certInput ''r1'')
         (Join ''lab'' (ShortName (srlNode ''r1''))) caWorld = ((Some ?B, None), snd ?G)"
    by (simp add: sn Join_lab_r1 toy_issue_r1)
  show ?thesis
    using pl nm d g GenerateCert_then_RetrieveNodeCertData [OF pl nm disjI1 [OF d] g]
    by (simp add: sn Join_lab_r1 Join_r1_prefix)
qed

text \<open>
  The third hypothesis is needed in this model of the store, where a write does not
  look at the parent directory: over a regular file at the node's directory path the
  issuer still returns its bundle, and the retriever then returns \<^verbatim>\<open>nil, nil\<close>.
\<close>

lemma roundtrip_fails_over_regular_file:
  "fst (GenerateCert toyDeps ''ca/root-ca.pem'' ''ca/root-ca-key.pem'' ''tpl''
          (certInput ''r1'') (Join ''lab'' ''r1'')
          (caWorld\<lparr>files := (files caWorld)(''lab/r1'' \<mapsto> File ''x'')\<rparr>))
     = (Some \<lparr>Key = ''key:r1'', Csr = ''csr:r1'', Cert = ''signed:csr:r1''\<rparr>, None)
   \<and> fst (RetrieveNodeCertData (srlNode ''r1'') ''lab''
            (snd (GenerateCert toyDeps ''ca/root-ca.pem'' ''ca/root-ca-key.pem'' ''tpl''
                    (certInput ''r1'') (Join ''lab'' ''r1'')
                    (caWorld\<lparr>files := (files caWorld)(''lab/r1'' \<mapsto> File ''x'')\<rparr>))))
     = (None, None)"
proof -
  let ?G = "GenerateCert toyDeps ''ca/root-ca.pem'' ''ca/root-ca-key.pem'' ''tpl''
              (certInput ''r1'') ''lab/r1''
              (caWorld\<lparr>files := (files caWorld)(''lab/r1'' \<mapsto> File ''x'')\<rparr>)"
  have g: "fst ?G = (Some \<lparr>Key = ''key:r1'', Csr = ''csr:r1'', Cert = ''signed:csr:r1''\<rparr>, None)"
    by (simp add: toy_issue_over_file)
  have d: "files (snd ?G) ''lab/r1'' = Some (File ''x'')"
    unfolding toy_issue_over_file
    by (simp add: files_writeCertFiles)
  show ?thesis
    by (simp add: Join_lab_r1 g d srlNode_def RetrieveNodeCertData_def
          os_Stat_def IsDir_def Let_def)
qed

end
